theory Spec2Isabelle
  imports Main
begin

section \<open>Result.h: error codes, errors and result types\<close>

text \<open>
  Modelled from the spec: the error taxonomy (SessionExpired, AccessDenied, AlreadyExists,
  DoesntExist, InvalidValue, InvalidFormat, WrongPassword, the backend-specific NoDevice and
  transient AccessExpired, generic provider failures). RestEndpointHandlers.cpp,
  SpotifyBackend.cpp, SpotifyAuthorization.cpp and Test_ConfigHandler.cpp are written
  against a declaration of \<^verbatim>\<open>enum class ErrorCode\<close> that is not among the sources: the
  Result.h at hand is an older revision that lists AccessDenied, SessionExpired,
  FileNotFound, InvalidFormat and InvalidValue only. The enumerators below are the ones
  these sources name, under the names they use: the nineteen keys of ERROR_TO_HTTP_STATUS in
  their order there, and SpotifyAccessExpired of SpotifyBackend.cpp.
\<close>

datatype ErrorCode =
    WrongPassword
  | AccessDenied
  | SessionExpired
  | FileNotFound
  | KeyNotFound
  | InvalidFormat
  | InvalidValue
  | NotImplemented
  | NotInitialized
  | SpotifyNotFound
  | SpotifyForbidden
  | SpotifyAccessDenied
  | SpotifyParseError
  | SpotifyAPIError
  | SpotifyBadRequest
  | SpotifyHttpTimeout
  | SpotifyNoDevice
  | AlreadyExists
  | DoesntExist
  | SpotifyAccessExpired

text \<open>Class \<^verbatim>\<open>Error\<close>: a code and a message, read by getErrorCode and getErrorMessage.\<close>

record Error =
  mCode :: ErrorCode
  mMsg :: string

definition getErrorCode :: "Error \<Rightarrow> ErrorCode" where
  "getErrorCode err = mCode err"


text \<open>
  \<^verbatim>\<open>TResult<GOOD_TYPE> = std::variant<GOOD_TYPE, Error>\<close> is the sum of the error (left)
  and the good value (right); \<^verbatim>\<open>TResultOpt = std::optional<Error>\<close> is an optional error.
\<close>

type_synonym 'a TResult = "Error + 'a"

type_synonym TResultOpt = "Error option"

section \<open>RestEndpointHandlers.cpp: mapErrorToResponse\<close>




section \<open>The types of the Spotify API that the backend reads\<close>

text \<open>
  SpotifyAPITypes.h is not among the sources. Each record of the service's types has one
  field per getter that SpotifyBackend.cpp and SpotifyAuthorization.cpp call on it
  (\<open>image_url\<close> for \<^verbatim>\<open>getUrl()\<close>, \<open>device_name\<close> for \<^verbatim>\<open>getName()\<close>, and so on).
\<close>

record Image =
  image_url :: string

record Artist =
  artist_name :: string

record Album =
  album_name :: string
  album_images :: "Image list"

record Track =
  track_name :: string
  track_uri :: string
  track_duration :: nat
  track_album :: Album
  track_artists :: "Artist list"

record Device =
  device_name :: string
  device_volume :: nat

record Playback =
  playback_currentPlayingTrack :: "Track option"
  playback_isPlaying :: bool
  playback_progressMs :: nat
  playback_device :: Device

record SpotifyPaging =
  paging_tracks :: "Track list"

record Token =
  accessToken :: string
  refreshToken :: string
  tokenType :: string
  tokenScope :: string
  expiresIn :: int

text \<open>
  Modelled from the spec: the Track descriptor (trackId, title, artist, album, iconUri,
  durationMs) and the PlaybackTrack of the data model, a Track plus isPlaying and progressMs.
  GlobalTypes.h is not among the sources; the field names are the members that
  SpotifyBackend.cpp assigns.
\<close>

record BaseTrack =
  trackId :: string
  title :: string
  album :: string
  artist :: string
  iconUri :: string
  durationMs :: nat

record PlaybackTrack = BaseTrack +
  isPlaying :: bool
  progressMs :: nat

datatype QueryType = track

section \<open>The provider, the clock and the configuration\<close>

text \<open>
  Every request that reaches the Spotify service is one \<open>ApiCall\<close>, with the arguments
  SpotifyBackend.cpp and SpotifyAuthorization.cpp pass to \<^verbatim>\<open>SpotifyAPI\<close>.
\<close>

datatype ApiCall =
    Search string string QueryType nat
  | GetAvailableDevices string
  | GetCurrentPlayback string
  | TransferUsersPlayback string "Device list" bool
  | Play string "string list" "Device option"
  | Pause string
  | SetVolume string nat Device
  | GetTrack string string
  | RefreshAccessToken string string string

text \<open>
  The service, the system clock and the configuration file are outside the program. \<open>Env\<close>
  fixes how they behave: the service answers a request as a function of the whole history
  of requests (the last element being the request itself), the clock gives its n-th
  reading in seconds, and the configuration answers getValueString.
\<close>

record Env =
  api_search :: "ApiCall list \<Rightarrow> SpotifyPaging TResult"
  api_getAvailableDevices :: "ApiCall list \<Rightarrow> Device list TResult"
  api_getCurrentPlayback :: "ApiCall list \<Rightarrow> Playback option TResult"
  api_transferUsersPlayback :: "ApiCall list \<Rightarrow> TResultOpt"
  api_play :: "ApiCall list \<Rightarrow> TResultOpt"
  api_pause :: "ApiCall list \<Rightarrow> TResultOpt"
  api_setVolume :: "ApiCall list \<Rightarrow> TResultOpt"
  api_getTrack :: "ApiCall list \<Rightarrow> Track TResult"
  api_refreshAccessToken :: "ApiCall list \<Rightarrow> Token TResult"
  system_clock :: "nat \<Rightarrow> int"
  getValueString :: "string \<Rightarrow> string \<Rightarrow> string TResult"

text \<open>
  The state that the operations change: the members of SpotifyAuthorization (held by the
  backend as mSpotifyAuth) that refreshAccessToken reads and writes, the requests sent to
  the service so far, in order, and the number of clock readings taken so far.
\<close>

record State =
  mToken :: Token
  mTokenReceiveTime :: int
  mClientID :: string
  mClientSecret :: string
  requests :: "ApiCall list"
  clockReads :: nat

definition request :: "(ApiCall list \<Rightarrow> 'r) \<Rightarrow> ApiCall \<Rightarrow> State \<Rightarrow> 'r \<times> State" where
  "request answer c s = (answer (requests s @ [c]), s\<lparr>requests := requests s @ [c]\<rparr>)"

text \<open>
  The times of the source are \<^verbatim>\<open>int64_t\<close>. They are integers here, and \<open>int64\<close> is the
  value that the 64-bit two's complement representation keeps of an integer: the integer
  itself when it lies in the range \<open>fitsInt64\<close>, wrapped around otherwise.
\<close>

definition int64 :: "int \<Rightarrow> int" where
  "int64 x = (x + 9223372036854775808) mod 18446744073709551616 - 9223372036854775808"

definition fitsInt64 :: "int \<Rightarrow> bool" where
  "fitsInt64 x = (- 9223372036854775808 \<le> x \<and> x < 9223372036854775808)"

text \<open>
  \<^verbatim>\<open>duration_cast<seconds>(system_clock::now().time_since_epoch()).count()\<close>, stored in an
  \<^verbatim>\<open>int64_t\<close>.
\<close>

definition now :: "Env \<Rightarrow> State \<Rightarrow> int \<times> State" where
  "now e s = (int64 (system_clock e (clockReads s)), s\<lparr>clockReads := Suc (clockReads s)\<rparr>)"

section \<open>SpotifyAuthorization.cpp\<close>

definition getRefreshToken :: "State \<Rightarrow> string" where
  "getRefreshToken s = refreshToken (mToken s)"

definition getAccessToken :: "State \<Rightarrow> string" where
  "getAccessToken s = accessToken (mToken s)"

text \<open>
  \<^verbatim>\<open>mTokenReceiveTime + mToken.getExpiresIn() - 10\<close>, computed in \<^verbatim>\<open>__int64_t\<close>: each of
  the two operations keeps 64 bits of its result.
\<close>

definition getExpiresAt :: "State \<Rightarrow> int" where
  "getExpiresAt s = int64 (int64 (mTokenReceiveTime s + expiresIn (mToken s)) - 10)"

text \<open>
  refreshAccessToken: the check of the refresh token, the reading of the clock and the
  expiry check, the request to the service (on a SpotifyAPI of its own, the same service),
  and the replacement of the token with the old refresh token set into the new one.
\<close>

definition refreshAccessToken :: "Env \<Rightarrow> State \<Rightarrow> TResultOpt \<times> State" where
  "refreshAccessToken e s =
     (if refreshToken (mToken s) = []
      then (Some \<lparr>mCode = InvalidValue, mMsg = ''No refresh token available''\<rparr>, s)
      else
        (case now e s of (t, s1) \<Rightarrow>
          if t < getExpiresAt s1 then (None, s1)
          else
            (case request (api_refreshAccessToken e)
                    (RefreshAccessToken (refreshToken (mToken s1)) (mClientID s1) (mClientSecret s1)) s1 of
              (Inl error, s2) \<Rightarrow> (Some error, s2)
            | (Inr token, s2) \<Rightarrow>
                (let token' = token\<lparr>refreshToken := refreshToken (mToken s2)\<rparr> in
                 case now e s2 of (t2, s3) \<Rightarrow>
                   (None, s3\<lparr>mTokenReceiveTime := t2, mToken := token'\<rparr>)))))"

section \<open>SpotifyBackend.cpp\<close>

subsection \<open>The calls on SpotifyAPI\<close>

definition SpotifyAPI_search ::
  "Env \<Rightarrow> string \<Rightarrow> QueryType \<Rightarrow> nat \<Rightarrow> string \<Rightarrow> State \<Rightarrow> SpotifyPaging TResult \<times> State" where
  "SpotifyAPI_search e pattern ty num token = request (api_search e) (Search token pattern ty num)"

definition SpotifyAPI_getAvailableDevices :: "Env \<Rightarrow> string \<Rightarrow> State \<Rightarrow> Device list TResult \<times> State" where
  "SpotifyAPI_getAvailableDevices e token = request (api_getAvailableDevices e) (GetAvailableDevices token)"

definition SpotifyAPI_getCurrentPlayback :: "Env \<Rightarrow> string \<Rightarrow> State \<Rightarrow> Playback option TResult \<times> State" where
  "SpotifyAPI_getCurrentPlayback e token = request (api_getCurrentPlayback e) (GetCurrentPlayback token)"

definition SpotifyAPI_transferUsersPlayback ::
  "Env \<Rightarrow> string \<Rightarrow> Device list \<Rightarrow> bool \<Rightarrow> State \<Rightarrow> TResultOpt \<times> State" where
  "SpotifyAPI_transferUsersPlayback e token devices startPlaying =
     request (api_transferUsersPlayback e) (TransferUsersPlayback token devices startPlaying)"

definition SpotifyAPI_play ::
  "Env \<Rightarrow> string list \<Rightarrow> Device option \<Rightarrow> string \<Rightarrow> State \<Rightarrow> TResultOpt \<times> State" where
  "SpotifyAPI_play e uris device token = request (api_play e) (Play token uris device)"

definition SpotifyAPI_pause :: "Env \<Rightarrow> string \<Rightarrow> State \<Rightarrow> TResultOpt \<times> State" where
  "SpotifyAPI_pause e token = request (api_pause e) (Pause token)"

definition SpotifyAPI_setVolume :: "Env \<Rightarrow> nat \<Rightarrow> Device \<Rightarrow> string \<Rightarrow> State \<Rightarrow> TResultOpt \<times> State" where
  "SpotifyAPI_setVolume e percent device token = request (api_setVolume e) (SetVolume token percent device)"

definition SpotifyAPI_getTrack :: "Env \<Rightarrow> string \<Rightarrow> string \<Rightarrow> State \<Rightarrow> Track TResult \<times> State" where
  "SpotifyAPI_getTrack e trackNameId token = request (api_getTrack e) (GetTrack token trackNameId)"

subsection \<open>errorHandler and the two call macros\<close>

definition errorHandler :: "Env \<Rightarrow> Error \<Rightarrow> State \<Rightarrow> TResultOpt \<times> State" where
  "errorHandler e error s =
     (if getErrorCode error = SpotifyAccessExpired
      then (case refreshAccessToken e s of
              (Some ret, s1) \<Rightarrow> (Some ret, s1)
            | (None, s1) \<Rightarrow> (None, s1))
      else (Some error, s))"

text \<open>
  The macro SPOTIFYCALL_WITH_REFRESH(returnValue, functionCall, tokenString). The function
  call is an expression over the token variable, so it is a function of the token here.
  \<open>Inl err\<close> is the macro's \<^verbatim>\<open>return\<close> out of the enclosing function; \<open>Inr (v, t)\<close> is
  falling through with the good alternative \<open>v\<close> in returnValue and \<open>t\<close> in tokenString.
  When errorHandler reports an error the macro returns \<^verbatim>\<open>*error\<close>, the error of the
  first call.
\<close>

definition SPOTIFYCALL_WITH_REFRESH ::
  "Env \<Rightarrow> (string \<Rightarrow> State \<Rightarrow> 'a TResult \<times> State) \<Rightarrow> string \<Rightarrow> State \<Rightarrow> (Error + 'a \<times> string) \<times> State" where
  "SPOTIFYCALL_WITH_REFRESH e functionCall tokenString s =
     (case functionCall tokenString s of
        (Inr v, s1) \<Rightarrow> (Inr (v, tokenString), s1)
      | (Inl error, s1) \<Rightarrow>
          (case errorHandler e error s1 of
             (Some ret, s2) \<Rightarrow> (Inl error, s2)
           | (None, s2) \<Rightarrow>
               (let tokenString' = getAccessToken s2 in
                case functionCall tokenString' s2 of
                  (Inl err, s3) \<Rightarrow> (Inl err, s3)
                | (Inr v, s3) \<Rightarrow> (Inr (v, tokenString'), s3))))"

text \<open>
  The macro SPOTIFYCALL_WITH_REFRESH_OPT, for calls that return TResultOpt. When
  errorHandler reports an error this macro returns \<^verbatim>\<open>ret.value()\<close>, the handler's error.
\<close>

definition SPOTIFYCALL_WITH_REFRESH_OPT ::
  "Env \<Rightarrow> (string \<Rightarrow> State \<Rightarrow> TResultOpt \<times> State) \<Rightarrow> string \<Rightarrow> State \<Rightarrow> (Error + string) \<times> State" where
  "SPOTIFYCALL_WITH_REFRESH_OPT e functionCall tokenString s =
     (case functionCall tokenString s of
        (None, s1) \<Rightarrow> (Inr tokenString, s1)
      | (Some error, s1) \<Rightarrow>
          (case errorHandler e error s1 of
             (Some ret, s2) \<Rightarrow> (Inl ret, s2)
           | (None, s2) \<Rightarrow>
               (let tokenString' = getAccessToken s2 in
                case functionCall tokenString' s2 of
                  (Some err, s3) \<Rightarrow> (Inl err, s3)
                | (None, s3) \<Rightarrow> (Inr tokenString', s3))))"

subsection \<open>The operations\<close>

text \<open>
  The loop over the artists: \<open>firstArtist\<close> is the flag of the source, and the names are
  joined with \<^verbatim>\<open>" & "\<close>.
\<close>

fun artistLoop :: "Artist list \<Rightarrow> bool \<Rightarrow> string \<Rightarrow> string" where
  "artistLoop [] firstArtist acc = acc"
| "artistLoop (a # as) firstArtist acc =
     artistLoop as False ((if \<not> firstArtist then acc @ '' & '' else acc) @ artist_name a)"

text \<open>
  The block that queryTracks (per element) and createBaseTrack write out in the same
  words: a BaseTrack from a Track of the service.
\<close>

definition toBaseTrack :: "Track \<Rightarrow> BaseTrack" where
  "toBaseTrack elem =
     \<lparr>trackId = track_uri elem,
      title = track_name elem,
      album = album_name (track_album elem),
      artist = artistLoop (track_artists elem) True [],
      iconUri = (case album_images (track_album elem) of [] \<Rightarrow> [] | img # imgs \<Rightarrow> image_url img),
      durationMs = track_duration elem\<rparr>"

definition queryTracks :: "Env \<Rightarrow> string \<Rightarrow> nat \<Rightarrow> State \<Rightarrow> BaseTrack list TResult \<times> State" where
  "queryTracks e pattern num s =
     (let token = getAccessToken s in
      case SPOTIFYCALL_WITH_REFRESH e (SpotifyAPI_search e pattern track num) token s of
        (Inl err, s1) \<Rightarrow> (Inl err, s1)
      | (Inr (page, token1), s1) \<Rightarrow> (Inr (map toBaseTrack (paging_tracks page)), s1))"

text \<open>
  setPlayback. The device is the first of the list, replaced by the first device whose name
  is the configured value (\<^verbatim>\<open>std::find_if\<close>) when there is one. The calls of
  transferUsersPlayback and the second getCurrentPlayback are written without the macro in
  the source; the result of the latter is not read.
\<close>

definition setPlayback :: "Env \<Rightarrow> BaseTrack \<Rightarrow> State \<Rightarrow> TResultOpt \<times> State" where
  "setPlayback e trk s =
     (let token = getAccessToken s in
      case SPOTIFYCALL_WITH_REFRESH e (SpotifyAPI_getAvailableDevices e) token s of
        (Inl err, s1) \<Rightarrow> (Some err, s1)
      | (Inr (devices, token1), s1) \<Rightarrow>
     (case devices of
        [] \<Rightarrow> (Some \<lparr>mCode = SpotifyNoDevice,
                     mMsg = ''No devices for playing the track available''\<rparr>, s1)
      | device0 # others \<Rightarrow>
     (let device =
            (case getValueString e ''Spotify'' ''playingDevice'' of
               Inr value \<Rightarrow>
                 (case find (\<lambda>elem. device_name elem = value) devices of
                    Some dev \<Rightarrow> dev
                  | None \<Rightarrow> device0)
             | Inl noValue \<Rightarrow> device0) in
      case SPOTIFYCALL_WITH_REFRESH e (SpotifyAPI_getCurrentPlayback e) token1 s1 of
        (Inl err, s2) \<Rightarrow> (Some err, s2)
      | (Inr (playback, token2), s2) \<Rightarrow>
     (case (if playback = None
            then SpotifyAPI_transferUsersPlayback e token2 [device] True s2
            else (None, s2)) of
        (Some err, s3) \<Rightarrow> (Some err, s3)
      | (None, s3) \<Rightarrow>
     (case SpotifyAPI_getCurrentPlayback e token2 s3 of
        (playbackRet, s4) \<Rightarrow>
     (case SPOTIFYCALL_WITH_REFRESH_OPT e (SpotifyAPI_play e [trackId trk] (Some device)) token2 s4 of
        (Inl err, s5) \<Rightarrow> (Some err, s5)
      | (Inr token3, s5) \<Rightarrow> (None, s5)))))))"

definition getCurrentPlayback :: "Env \<Rightarrow> State \<Rightarrow> PlaybackTrack option TResult \<times> State" where
  "getCurrentPlayback e s =
     (let token = getAccessToken s in
      case SPOTIFYCALL_WITH_REFRESH e (SpotifyAPI_getCurrentPlayback e) token s of
        (Inl err, s1) \<Rightarrow> (Inl err, s1)
      | (Inr (playback, token1), s1) \<Rightarrow>
     (case playback of
        None \<Rightarrow> (Inr None, s1)
      | Some pb \<Rightarrow>
     (case playback_currentPlayingTrack pb of
        None \<Rightarrow> (Inr None, s1)
      | Some spotifyPlayingTrack \<Rightarrow>
          (Inr (Some
             \<lparr>trackId = track_uri spotifyPlayingTrack,
              title = track_name spotifyPlayingTrack,
              album = album_name (track_album spotifyPlayingTrack),
              artist = artistLoop (track_artists spotifyPlayingTrack) True [],
              iconUri = (case album_images (track_album spotifyPlayingTrack) of
                           [] \<Rightarrow> [] | img # imgs \<Rightarrow> image_url img),
              durationMs = track_duration spotifyPlayingTrack,
              isPlaying = playback_isPlaying pb,
              progressMs = playback_progressMs pb\<rparr>), s1))))"

text \<open>pause reads the token before it asks for the playback, as the source does.\<close>

definition pause :: "Env \<Rightarrow> State \<Rightarrow> TResultOpt \<times> State" where
  "pause e s =
     (let token = getAccessToken s in
      case getCurrentPlayback e s of
        (Inl error, s1) \<Rightarrow> (Some error, s1)
      | (Inr playback, s1) \<Rightarrow>
     (case playback of
        None \<Rightarrow> (None, s1)
      | Some pt \<Rightarrow>
          if \<not> isPlaying pt then (None, s1)
          else
            (case SPOTIFYCALL_WITH_REFRESH_OPT e (SpotifyAPI_pause e) token s1 of
               (Inl err, s2) \<Rightarrow> (Some err, s2)
             | (Inr token1, s2) \<Rightarrow> (None, s2))))"

text \<open>\<^verbatim>\<open>mSpotifyAPI.play(token)\<close> is the call with no track and no device.\<close>

definition play :: "Env \<Rightarrow> State \<Rightarrow> TResultOpt \<times> State" where
  "play e s =
     (case getCurrentPlayback e s of
        (Inl error, s1) \<Rightarrow> (Some error, s1)
      | (Inr playback, s1) \<Rightarrow>
     (case playback of
        None \<Rightarrow> (Some \<lparr>mCode = SpotifyBadRequest,
                       mMsg = ''Error, cant resume when no playback available''\<rparr>, s1)
      | Some pt \<Rightarrow>
          if isPlaying pt then (None, s1)
          else
            (let token = getAccessToken s1 in
             case SPOTIFYCALL_WITH_REFRESH_OPT e (SpotifyAPI_play e [] None) token s1 of
               (Inl err, s2) \<Rightarrow> (Some err, s2)
             | (Inr token1, s2) \<Rightarrow> (None, s2))))"

definition getVolume :: "Env \<Rightarrow> State \<Rightarrow> nat TResult \<times> State" where
  "getVolume e s =
     (let token = getAccessToken s in
      case SPOTIFYCALL_WITH_REFRESH e (SpotifyAPI_getCurrentPlayback e) token s of
        (Inl err, s1) \<Rightarrow> (Inl err, s1)
      | (Inr (playback, token1), s1) \<Rightarrow>
     (case playback of
        None \<Rightarrow> (Inl \<lparr>mCode = SpotifyBadRequest,
                      mMsg = ''SpotifyBackend.getVolume: Cant get Volume when playback is empty''\<rparr>, s1)
      | Some pb \<Rightarrow> (Inr (device_volume (playback_device pb)), s1)))"

text \<open>
  setVolume declares \<^verbatim>\<open>Device device;\<close> without the first device of the list, so the
  device of the call is the default-constructed one unless a name matches; that device is
  the parameter \<open>defaultDevice\<close>.
\<close>

definition setVolume :: "Env \<Rightarrow> Device \<Rightarrow> nat \<Rightarrow> State \<Rightarrow> TResultOpt \<times> State" where
  "setVolume e defaultDevice percent s =
     (let token = getAccessToken s in
      case SPOTIFYCALL_WITH_REFRESH e (SpotifyAPI_getAvailableDevices e) token s of
        (Inl err, s1) \<Rightarrow> (Some err, s1)
      | (Inr (devices, token1), s1) \<Rightarrow>
     (case devices of
        [] \<Rightarrow> (Some \<lparr>mCode = SpotifyNoDevice,
                     mMsg = ''No devices for playing the track available''\<rparr>, s1)
      | device0 # others \<Rightarrow>
     (let device =
            (case getValueString e ''Spotify'' ''playingDevice'' of
               Inr value \<Rightarrow>
                 (case find (\<lambda>elem. device_name elem = value) devices of
                    Some dev \<Rightarrow> dev
                  | None \<Rightarrow> defaultDevice)
             | Inl noValue \<Rightarrow> defaultDevice) in
      case SPOTIFYCALL_WITH_REFRESH_OPT e (SpotifyAPI_setVolume e percent device) token1 s1 of
        (Inl err, s2) \<Rightarrow> (Some err, s2)
      | (Inr token2, s2) \<Rightarrow> (None, s2))))"

text \<open>
  \<^verbatim>\<open>trackID.rfind(":")\<close> and \<^verbatim>\<open>substr(pos + 1)\<close>: the part after the last colon, and
  the empty string when there is no colon.
\<close>

fun afterLastColon :: "string \<Rightarrow> string option" where
  "afterLastColon [] = None"
| "afterLastColon (c # cs) =
     (case afterLastColon cs of
        Some r \<Rightarrow> Some r
      | None \<Rightarrow> if c = CHR '':'' then Some cs else None)"

definition createBaseTrack :: "Env \<Rightarrow> string \<Rightarrow> State \<Rightarrow> BaseTrack TResult \<times> State" where
  "createBaseTrack e trackID s =
     (let token = getAccessToken s;
          trackNameId = (case afterLastColon trackID of Some r \<Rightarrow> r | None \<Rightarrow> []) in
      case SPOTIFYCALL_WITH_REFRESH e (SpotifyAPI_getTrack e trackNameId) token s of
        (Inl err, s1) \<Rightarrow> (Inl err, s1)
      | (Inr (trk, token1), s1) \<Rightarrow> (Inr (toBaseTrack trk), s1))"

section \<open>SimpleScheduler.h\<close>

datatype SchedulerState = Idle | PlayNextSong | CheckPlaying | Playing

text \<open>
  The data members of the class, the thread and the two mutexes apart. The two pointers are
  addresses.
\<close>

record SimpleScheduler =
  mDataStore :: nat
  mMusicBackend :: nat
  mSchedulerState :: SchedulerState
  mLastPlaybackTrack :: "PlaybackTrack option TResult"
  cScheduleIntervalTimeMs :: int
  mCloseThread :: bool

text \<open>
  Modelled from the spec: the constructor \<^verbatim>\<open>SimpleScheduler(datastore, musicbackend)\<close>,
  declared in SimpleScheduler.h with its body in SimpleScheduler.cpp, which is not among the
  sources. The spec: the polling period is configurable, with a default of 1000 ms. The
  header gives the const member cScheduleIntervalTimeMs the default member initialiser 1000,
  which the constructor alone can replace; \<open>configured\<close> is the period that the
  configuration supplies, if it supplies one. The other members have the default member
  initialisers of the header (a variant is default-constructed to its first alternative, here
  an empty optional).
\<close>

definition newSimpleScheduler :: "nat \<Rightarrow> nat \<Rightarrow> int option \<Rightarrow> SimpleScheduler" where
  "newSimpleScheduler datastore musicbackend configured =
     \<lparr>mDataStore = datastore,
      mMusicBackend = musicbackend,
      mSchedulerState = Idle,
      mLastPlaybackTrack = Inr None,
      cScheduleIntervalTimeMs = (case configured of None \<Rightarrow> 1000 | Some ms \<Rightarrow> ms),
      mCloseThread = False\<rparr>"

text \<open>
  Modelled from the spec: getLastPlayback, declared in SimpleScheduler.h with its body in
  SimpleScheduler.cpp, which is not among the sources. The spec: the last successful poll
  result is cached and exposed via a read accessor, and a read never triggers a fresh poll.
  The cache is the member mLastPlaybackTrack. The function takes the scheduler and the state of
  the backend and returns them with the value read.
\<close>

definition getLastPlayback ::
  "SimpleScheduler \<Rightarrow> State \<Rightarrow> PlaybackTrack option TResult \<times> SimpleScheduler \<times> State" where
  "getLastPlayback sch s = (mLastPlaybackTrack sch, sch, s)"

section \<open>Requests sent by an operation\<close>

text \<open>
  \<open>sendsOnly P s s'\<close>: the requests of \<open>s'\<close> are those of \<open>s\<close> followed by requests that all
  satisfy \<open>P\<close>.
\<close>

definition sendsOnly :: "(ApiCall \<Rightarrow> bool) \<Rightarrow> State \<Rightarrow> State \<Rightarrow> bool" where
  "sendsOnly P s s' =
     (take (length (requests s)) (requests s') = requests s
      \<and> list_all P (drop (length (requests s)) (requests s')))"

fun isPause :: "ApiCall \<Rightarrow> bool" where
  "isPause (Pause token) = True"
| "isPause c = False"

text \<open>The devices on which a request starts playback or to which it moves it.\<close>

fun playbackDevices :: "ApiCall \<Rightarrow> Device list" where
  "playbackDevices (Play token uris (Some d)) = [d]"
| "playbackDevices (TransferUsersPlayback token ds startPlaying) = ds"
| "playbackDevices c = []"

text \<open>
  A run of setPlayback with result \<open>r\<close> from state \<open>s\<close> targets the device \<open>d\<close>: every request
  it sent that starts or moves playback names \<open>d\<close> and no other device, and when it succeeded
  its last request is the play request for the track on \<open>d\<close>.
\<close>

definition targetsDevice :: "Device \<Rightarrow> BaseTrack \<Rightarrow> State \<Rightarrow> TResultOpt \<times> State \<Rightarrow> bool" where
  "targetsDevice d trk s r =
     (sendsOnly (\<lambda>c. list_all (\<lambda>x. x = d) (playbackDevices c)) s (snd r)
      \<and> (fst r = None \<longrightarrow>
           requests (snd r) \<noteq> []
           \<and> (case last (requests (snd r)) of
                Play token uris dev \<Rightarrow> uris = [trackId trk] \<and> dev = Some d
              | c \<Rightarrow> False)))"

text \<open>
  A run of setPlayback with result \<open>r\<close> plays the track on the device \<open>d\<close>, where \<open>s1\<close> and
  \<open>tok\<close> are the state and the token after the device request. When the status request
  fails, its error is the result. When the service reports a playback, the next two requests
  are the unchecked status request and the play request for the track on \<open>d\<close>, and the
  run succeeds when the service accepts the play request. When the service reports no
  playback, the next request transfers the playback to \<open>d\<close>; an error of the transfer is the
  result; after an accepted transfer follow the status request and the play request for the
  track on \<open>d\<close>, and the run succeeds when the service accepts the play request.
\<close>

definition playsTrackOn ::
  "Env \<Rightarrow> BaseTrack \<Rightarrow> Device \<Rightarrow> string \<Rightarrow> State \<Rightarrow> TResultOpt \<times> State \<Rightarrow> bool" where
  "playsTrackOn e trk d tok s1 r =
     ((\<forall>err s2.
         SPOTIFYCALL_WITH_REFRESH e (SpotifyAPI_getCurrentPlayback e) tok s1 = (Inl err, s2) \<longrightarrow>
         r = (Some err, s2))
      \<and> (\<forall>pb tok2 s2.
         SPOTIFYCALL_WITH_REFRESH e (SpotifyAPI_getCurrentPlayback e) tok s1 = (Inr (Some pb, tok2), s2) \<longrightarrow>
         take (length (requests s2) + 2) (requests (snd r)) =
           requests s2 @ [GetCurrentPlayback tok2, Play tok2 [trackId trk] (Some d)]
         \<and> (api_play e (requests s2 @ [GetCurrentPlayback tok2, Play tok2 [trackId trk] (Some d)]) = None \<longrightarrow>
              r = (None, s2\<lparr>requests := requests s2 @
                     [GetCurrentPlayback tok2, Play tok2 [trackId trk] (Some d)]\<rparr>)))
      \<and> (\<forall>tok2 s2.
         SPOTIFYCALL_WITH_REFRESH e (SpotifyAPI_getCurrentPlayback e) tok s1 = (Inr (None, tok2), s2) \<longrightarrow>
         take (length (requests s2) + 1) (requests (snd r)) =
           requests s2 @ [TransferUsersPlayback tok2 [d] True]
         \<and> (\<forall>err. api_transferUsersPlayback e (requests s2 @ [TransferUsersPlayback tok2 [d] True]) = Some err \<longrightarrow>
              r = (Some err, s2\<lparr>requests := requests s2 @ [TransferUsersPlayback tok2 [d] True]\<rparr>))
         \<and> (api_transferUsersPlayback e (requests s2 @ [TransferUsersPlayback tok2 [d] True]) = None \<longrightarrow>
              take (length (requests s2) + 3) (requests (snd r)) =
                requests s2 @ [TransferUsersPlayback tok2 [d] True, GetCurrentPlayback tok2,
                               Play tok2 [trackId trk] (Some d)]
              \<and> (api_play e (requests s2 @ [TransferUsersPlayback tok2 [d] True, GetCurrentPlayback tok2,
                                             Play tok2 [trackId trk] (Some d)]) = None \<longrightarrow>
                   r = (None, s2\<lparr>requests := requests s2 @
                          [TransferUsersPlayback tok2 [d] True, GetCurrentPlayback tok2,
                           Play tok2 [trackId trk] (Some d)]\<rparr>)))))"

section \<open>Concrete environments and states\<close>

definition expired :: Error where
  "expired = \<lparr>mCode = SpotifyAccessExpired, mMsg = ''The access token expired''\<rparr>"

definition badRequest :: Error where
  "badRequest = \<lparr>mCode = SpotifyBadRequest, mMsg = ''Bad request''\<rparr>"

definition noKey :: Error where
  "noKey = \<lparr>mCode = KeyNotFound, mMsg = ''no such key''\<rparr>"

definition oldToken :: Token where
  "oldToken = \<lparr>accessToken = ''old'', refreshToken = ''refresh'', tokenType = ''Bearer'',
               tokenScope = ''streaming'', expiresIn = 3600\<rparr>"

definition newToken :: Token where
  "newToken = \<lparr>accessToken = ''new'', refreshToken = [], tokenType = ''Bearer'',
               tokenScope = ''streaming'', expiresIn = 3600\<rparr>"

definition kitchen :: Device where
  "kitchen = \<lparr>device_name = ''kitchen'', device_volume = 40\<rparr>"

definition office :: Device where
  "office = \<lparr>device_name = ''office'', device_volume = 60\<rparr>"

definition song :: Track where
  "song = \<lparr>track_name = ''Song'', track_uri = ''spotify:track:1'', track_duration = 180000,
           track_album = \<lparr>album_name = ''Album'', album_images = [\<lparr>image_url = ''big''\<rparr>, \<lparr>image_url = ''small''\<rparr>]\<rparr>,
           track_artists = [\<lparr>artist_name = ''A''\<rparr>, \<lparr>artist_name = ''B''\<rparr>]\<rparr>"

definition songTrack :: BaseTrack where
  "songTrack = toBaseTrack song"

text \<open>
  A service that grants everything: no track found by a search, the two devices, no
  playback, a new token on refresh. The clock starts at 5000 seconds. The configuration has
  no value at all.
\<close>

definition quietEnv :: Env where
  "quietEnv =
     \<lparr>api_search = (\<lambda>h. Inr \<lparr>paging_tracks = []\<rparr>),
      api_getAvailableDevices = (\<lambda>h. Inr [kitchen, office]),
      api_getCurrentPlayback = (\<lambda>h. Inr None),
      api_transferUsersPlayback = (\<lambda>h. None),
      api_play = (\<lambda>h. None),
      api_pause = (\<lambda>h. None),
      api_setVolume = (\<lambda>h. None),
      api_getTrack = (\<lambda>h. Inr song),
      api_refreshAccessToken = (\<lambda>h. Inr newToken),
      system_clock = (\<lambda>n. 5000 + int n),
      getValueString = (\<lambda>section key. Inl noKey)\<rparr>"

text \<open>A state whose token was received at second 1000, so that it has expired at 5000.\<close>

definition staleState :: State where
  "staleState =
     \<lparr>mToken = oldToken, mTokenReceiveTime = 1000, mClientID = ''id'', mClientSecret = ''secret'',
      requests = [], clockReads = 0\<rparr>"

text \<open>
  Variations of the service: a search and a pause that fail once with access expired; a
  search that fails with another error; a service that reports access expired and refuses
  the refresh;
  a playback that is playing until a pause request has been sent, and one that the service
  keeps reporting as playing; a configured device name
  that one device has, and one that no device has; no device at all.
\<close>

definition flakyEnv :: Env where
  "flakyEnv = quietEnv
     \<lparr>api_search := (\<lambda>h. if length h = 1 then Inl expired else Inr \<lparr>paging_tracks = [song]\<rparr>),
      api_pause := (\<lambda>h. if length h = 1 then Some expired else None)\<rparr>"

definition brokenEnv :: Env where
  "brokenEnv = quietEnv\<lparr>api_search := (\<lambda>h. Inl badRequest)\<rparr>"

definition refusingEnv :: Env where
  "refusingEnv = quietEnv
     \<lparr>api_search := (\<lambda>h. Inl expired), api_pause := (\<lambda>h. Some expired),
      api_refreshAccessToken := (\<lambda>h. Inl badRequest)\<rparr>"

definition playingEnv :: Env where
  "playingEnv = quietEnv\<lparr>api_getCurrentPlayback := (\<lambda>h. Inr (Some
       \<lparr>playback_currentPlayingTrack = Some song, playback_isPlaying = \<not> list_ex isPause h,
        playback_progressMs = 1234, playback_device = kitchen\<rparr>))\<rparr>"

definition laggingEnv :: Env where
  "laggingEnv = quietEnv\<lparr>api_getCurrentPlayback := (\<lambda>h. Inr (Some
       \<lparr>playback_currentPlayingTrack = Some song, playback_isPlaying = True,
        playback_progressMs = 1234, playback_device = kitchen\<rparr>))\<rparr>"

definition officeEnv :: Env where
  "officeEnv = quietEnv\<lparr>getValueString :=
      (\<lambda>section key. if section = ''Spotify'' \<and> key = ''playingDevice'' then Inr ''office'' else Inl noKey)\<rparr>"

definition atticEnv :: Env where
  "atticEnv = quietEnv\<lparr>getValueString :=
      (\<lambda>section key. if section = ''Spotify'' \<and> key = ''playingDevice'' then Inr ''attic'' else Inl noKey)\<rparr>"

definition noDeviceEnv :: Env where
  "noDeviceEnv = quietEnv\<lparr>api_getAvailableDevices := (\<lambda>h. Inr [])\<rparr>"

section \<open>Requests sent by the building blocks\<close>

lemma int64_fits: "fitsInt64 x \<Longrightarrow> int64 x = x"
  by (simp add: fitsInt64_def int64_def)

lemma sendsOnly_refl: "sendsOnly P s s"
  by (simp add: sendsOnly_def)

lemma sendsOnly_iff: "sendsOnly P s s' \<longleftrightarrow> (\<exists>new. requests s' = requests s @ new \<and> list_all P new)"
  unfolding sendsOnly_def
  by (metis append_eq_conv_conj)

lemma sendsOnly_trans: "sendsOnly P s s1 \<Longrightarrow> sendsOnly P s1 s2 \<Longrightarrow> sendsOnly P s s2"
  by (auto simp: sendsOnly_iff)

lemma sendsOnly_refresh:
  "(\<And>a b c. P (RefreshAccessToken a b c)) \<Longrightarrow> refreshAccessToken e s = (r, s') \<Longrightarrow> sendsOnly P s s'"
  by (auto simp: sendsOnly_iff refreshAccessToken_def now_def request_def Let_def
      split: if_splits sum.splits prod.splits)

lemma sendsOnly_errorHandler:
  "(\<And>a b c. P (RefreshAccessToken a b c)) \<Longrightarrow> errorHandler e err s = (r, s') \<Longrightarrow> sendsOnly P s s'"
  by (auto simp: errorHandler_def sendsOnly_refl split: if_splits option.splits prod.splits
      dest: sendsOnly_refresh)

lemma sendsOnly_WITH_REFRESH:
  assumes f: "\<And>t s r s'. f t s = (r, s') \<Longrightarrow> sendsOnly P s s'"
    and P: "\<And>a b c. P (RefreshAccessToken a b c)"
    and W: "SPOTIFYCALL_WITH_REFRESH e f t s = (r, s')"
  shows "sendsOnly P s s'"
  using W unfolding SPOTIFYCALL_WITH_REFRESH_def Let_def
  by (auto split: prod.splits sum.splits option.splits
      dest!: f sendsOnly_errorHandler[where P=P, OF P] intro: sendsOnly_trans)

lemma sendsOnly_WITH_REFRESH_OPT:
  assumes f: "\<And>t s r s'. f t s = (r, s') \<Longrightarrow> sendsOnly P s s'"
    and P: "\<And>a b c. P (RefreshAccessToken a b c)"
    and W: "SPOTIFYCALL_WITH_REFRESH_OPT e f t s = (r, s')"
  shows "sendsOnly P s s'"
  using W unfolding SPOTIFYCALL_WITH_REFRESH_OPT_def Let_def
  by (auto split: prod.splits sum.splits option.splits
      dest!: f sendsOnly_errorHandler[where P=P, OF P] intro: sendsOnly_trans)

lemma sendsOnly_filter:
  "sendsOnly (\<lambda>c. \<not> P c) s s' \<Longrightarrow> filter P (requests s') = filter P (requests s)"
  by (auto simp: sendsOnly_iff list_all_iff)

lemma refresh_requests:
  "requests (snd (refreshAccessToken e s)) = requests s
   \<or> requests (snd (refreshAccessToken e s)) =
        requests s @ [RefreshAccessToken (refreshToken (mToken s)) (mClientID s) (mClientSecret s)]"
  by (simp add: refreshAccessToken_def now_def request_def Let_def split: sum.splits)

lemma getCurrentPlayback_sends:
  assumes P: "\<And>a b c. P (RefreshAccessToken a b c)" "\<And>t. P (GetCurrentPlayback t)"
    and g: "getCurrentPlayback e s = (r, s')"
  shows "sendsOnly P s s'"
proof -
  obtain w s1 where W: "SPOTIFYCALL_WITH_REFRESH e (SpotifyAPI_getCurrentPlayback e) (getAccessToken s) s = (w, s1)"
    by (cases "SPOTIFYCALL_WITH_REFRESH e (SpotifyAPI_getCurrentPlayback e) (getAccessToken s) s")
  have "sendsOnly P s s1"
    by (rule sendsOnly_WITH_REFRESH [where P = P and f = "SpotifyAPI_getCurrentPlayback e", OF _ P(1) W])
       (auto simp: SpotifyAPI_getCurrentPlayback_def sendsOnly_iff request_def P)
  moreover have "s' = s1"
    using g W by (auto simp: getCurrentPlayback_def Let_def split: sum.splits option.splits)
  ultimately show ?thesis by simp
qed

lemma WITH_REFRESH_OPT_last:
  "SPOTIFYCALL_WITH_REFRESH_OPT e (\<lambda>tok. request a (mk tok)) t s = (Inr t', s')
   \<Longrightarrow> requests s' \<noteq> [] \<and> last (requests s') = mk t'"
  by (auto simp: SPOTIFYCALL_WITH_REFRESH_OPT_def request_def Let_def
      split: option.splits prod.splits)

lemma find_None_names: "(\<forall>x\<in>set xs. device_name x \<noteq> v) \<Longrightarrow> find (\<lambda>x. device_name x = v) xs = None"
  by (simp add: find_None_iff)

lemma errorHandler_appends:
  "errorHandler e err s = (r, s') \<Longrightarrow> \<exists>new. requests s' = requests s @ new"
  using sendsOnly_errorHandler [of "\<lambda>c. True" e err s r s'] by (auto simp: sendsOnly_iff)

lemma WITH_REFRESH_OPT_first:
  "SPOTIFYCALL_WITH_REFRESH_OPT e (\<lambda>tok. request a (mk tok)) t s = (r, s')
   \<Longrightarrow> \<exists>rest. requests s' = requests s @ mk t # rest"
  by (auto simp: SPOTIFYCALL_WITH_REFRESH_OPT_def request_def Let_def
      split: option.splits prod.splits dest!: errorHandler_appends)

lemma setPlayback_targets:
  assumes W: "SPOTIFYCALL_WITH_REFRESH e (SpotifyAPI_getAvailableDevices e) (getAccessToken s) s
                = (Inr (d0 # ds, tok), s1)"
    and d: "d = (case getValueString e ''Spotify'' ''playingDevice'' of
                   Inr v \<Rightarrow> (case find (\<lambda>x. device_name x = v) (d0 # ds) of
                               Some dev \<Rightarrow> dev | None \<Rightarrow> d0)
                 | Inl noValue \<Rightarrow> d0)"
  shows "targetsDevice d trk s (setPlayback e trk s)"
proof -
  let ?P = "\<lambda>c. list_all (\<lambda>x. x = d) (playbackDevices c)"
  have R: "\<And>a b c. ?P (RefreshAccessToken a b c)" by simp
  have A: "sendsOnly ?P s s1"
    by (rule sendsOnly_WITH_REFRESH [where P = ?P and f = "SpotifyAPI_getAvailableDevices e", OF _ R W])
       (auto simp: SpotifyAPI_getAvailableDevices_def sendsOnly_iff request_def)
  obtain w2 s2 where W2: "SPOTIFYCALL_WITH_REFRESH e (SpotifyAPI_getCurrentPlayback e) tok s1 = (w2, s2)"
    by (cases "SPOTIFYCALL_WITH_REFRESH e (SpotifyAPI_getCurrentPlayback e) tok s1")
  have B: "sendsOnly ?P s1 s2"
    by (rule sendsOnly_WITH_REFRESH [where P = ?P and f = "SpotifyAPI_getCurrentPlayback e", OF _ R W2])
       (auto simp: SpotifyAPI_getCurrentPlayback_def sendsOnly_iff request_def)
  show ?thesis
  proof (cases w2)
    case (Inl err)
    then show ?thesis
      using W W2 A B d [symmetric]
      by (auto simp: setPlayback_def targetsDevice_def Let_def intro: sendsOnly_trans)
  next
    case (Inr pr)
    obtain playback tok2 where pr: "pr = (playback, tok2)" by (cases pr)
    obtain w3 s3 where W3: "(if playback = None
            then SpotifyAPI_transferUsersPlayback e tok2 [d] True s2
            else (None, s2)) = (w3, s3)"
      by (cases "(if playback = None
            then SpotifyAPI_transferUsersPlayback e tok2 [d] True s2
            else (None, s2))")
    have C: "sendsOnly ?P s2 s3"
      using W3 by (auto simp: SpotifyAPI_transferUsersPlayback_def sendsOnly_iff request_def
          split: if_splits)
    obtain w4 s4 where W4: "SpotifyAPI_getCurrentPlayback e tok2 s3 = (w4, s4)"
      by (cases "SpotifyAPI_getCurrentPlayback e tok2 s3")
    have D: "sendsOnly ?P s3 s4"
      using W4 by (auto simp: SpotifyAPI_getCurrentPlayback_def sendsOnly_iff request_def)
    obtain w5 s5 where W5: "SPOTIFYCALL_WITH_REFRESH_OPT e (SpotifyAPI_play e [trackId trk] (Some d)) tok2 s4 = (w5, s5)"
      by (cases "SPOTIFYCALL_WITH_REFRESH_OPT e (SpotifyAPI_play e [trackId trk] (Some d)) tok2 s4")
    have E: "sendsOnly ?P s4 s5"
      by (rule sendsOnly_WITH_REFRESH_OPT [where P = ?P and f = "SpotifyAPI_play e [trackId trk] (Some d)", OF _ R W5])
         (auto simp: SpotifyAPI_play_def sendsOnly_iff request_def)
    have all: "sendsOnly ?P s s3" "sendsOnly ?P s s5"
      using A B C D E by (blast intro: sendsOnly_trans)+
    have L: "requests s5 \<noteq> [] \<and> last (requests s5) = Play t' [trackId trk] (Some d)" if "w5 = Inr t'" for t'
      using WITH_REFRESH_OPT_last [of e "api_play e" "\<lambda>tok. Play tok [trackId trk] (Some d)" tok2 s4 t' s5]
        W5 that
      by (simp add: SpotifyAPI_play_def [abs_def])
    show ?thesis
    proof (cases w3)
      case (Some err)
      then show ?thesis
        using W W2 Inr pr W3 all d [symmetric]
        by (simp add: setPlayback_def targetsDevice_def Let_def)
    next
      case None
      show ?thesis
      proof (cases w5)
        case (Inl err)
        then show ?thesis
          using W W2 Inr pr W3 None W4 W5 all d [symmetric]
          by (simp add: setPlayback_def targetsDevice_def Let_def)
      next
        case (Inr t')
        then show ?thesis
          using W W2 \<open>w2 = Inr pr\<close> pr W3 None W4 W5 all d [symmetric] L [OF Inr]
          by (simp add: setPlayback_def targetsDevice_def Let_def)
      qed
    qed
  qed
qed

lemma setPlayback_plays:
  assumes W: "SPOTIFYCALL_WITH_REFRESH e (SpotifyAPI_getAvailableDevices e) (getAccessToken s) s
                = (Inr (d0 # ds, tok), s1)"
    and d: "d = (case getValueString e ''Spotify'' ''playingDevice'' of
                   Inr v \<Rightarrow> (case find (\<lambda>x. device_name x = v) (d0 # ds) of
                               Some dev \<Rightarrow> dev | None \<Rightarrow> d0)
                 | Inl noValue \<Rightarrow> d0)"
  shows "playsTrackOn e trk d tok s1 (setPlayback e trk s)"
proof -
  let ?play = "\<lambda>t. request (api_play e) (Play t [trackId trk] (Some d))"
  have first: "\<exists>rest. requests x' = requests x @ Play t [trackId trk] (Some d) # rest"
    if "SPOTIFYCALL_WITH_REFRESH_OPT e ?play t x = (r, x')" for t x r x'
    using WITH_REFRESH_OPT_first [of e "api_play e" "\<lambda>t. Play t [trackId trk] (Some d)" t x r x'] that
    by simp
  have ok: "SPOTIFYCALL_WITH_REFRESH_OPT e ?play t x = (Inr t, x\<lparr>requests := requests x @ [Play t [trackId trk] (Some d)]\<rparr>)"
    if "api_play e (requests x @ [Play t [trackId trk] (Some d)]) = None" for t x
    using that by (simp add: SPOTIFYCALL_WITH_REFRESH_OPT_def request_def)
  have A: "r = (Some err, s2)"
    if "SPOTIFYCALL_WITH_REFRESH e (SpotifyAPI_getCurrentPlayback e) tok s1 = (Inl err, s2)"
      "r = setPlayback e trk s" for err s2 r
    using that W d [symmetric] by (simp add: setPlayback_def Let_def)
  have B: "take (length (requests s2) + 2) (requests (snd r)) =
           requests s2 @ [GetCurrentPlayback tok2, Play tok2 [trackId trk] (Some d)]
         \<and> (api_play e (requests s2 @ [GetCurrentPlayback tok2, Play tok2 [trackId trk] (Some d)]) = None \<longrightarrow>
              r = (None, s2\<lparr>requests := requests s2 @
                     [GetCurrentPlayback tok2, Play tok2 [trackId trk] (Some d)]\<rparr>))"
    if W2: "SPOTIFYCALL_WITH_REFRESH e (SpotifyAPI_getCurrentPlayback e) tok s1 = (Inr (Some pb, tok2), s2)"
      and r: "r = setPlayback e trk s" for pb tok2 s2 r
  proof -
    let ?s4 = "s2\<lparr>requests := requests s2 @ [GetCurrentPlayback tok2]\<rparr>"
    obtain w5 s5 where W5: "SPOTIFYCALL_WITH_REFRESH_OPT e ?play tok2 ?s4 = (w5, s5)"
      by (cases "SPOTIFYCALL_WITH_REFRESH_OPT e ?play tok2 ?s4")
    have S: "snd r = s5"
      using W W2 W5 r d [symmetric]
      by (auto simp: setPlayback_def Let_def SpotifyAPI_getCurrentPlayback_def SpotifyAPI_play_def [abs_def]
          request_def split: sum.splits)
    obtain rest where "requests s5 = requests ?s4 @ Play tok2 [trackId trk] (Some d) # rest"
      using first [OF W5] by blast
    then have 1: "take (length (requests s2) + 2) (requests (snd r)) =
           requests s2 @ [GetCurrentPlayback tok2, Play tok2 [trackId trk] (Some d)]"
      using S by simp
    have 2: "r = (None, s2\<lparr>requests := requests s2 @
                     [GetCurrentPlayback tok2, Play tok2 [trackId trk] (Some d)]\<rparr>)"
      if "api_play e (requests s2 @ [GetCurrentPlayback tok2, Play tok2 [trackId trk] (Some d)]) = None"
      using W W2 r d [symmetric] ok [of ?s4 tok2] that
      by (simp add: setPlayback_def Let_def SpotifyAPI_getCurrentPlayback_def SpotifyAPI_play_def [abs_def]
          request_def)
    show ?thesis using 1 2 by blast
  qed
  have C: "take (length (requests s2) + 1) (requests (snd r)) =
           requests s2 @ [TransferUsersPlayback tok2 [d] True]
         \<and> (\<forall>err. api_transferUsersPlayback e (requests s2 @ [TransferUsersPlayback tok2 [d] True]) = Some err \<longrightarrow>
              r = (Some err, s2\<lparr>requests := requests s2 @ [TransferUsersPlayback tok2 [d] True]\<rparr>))
         \<and> (api_transferUsersPlayback e (requests s2 @ [TransferUsersPlayback tok2 [d] True]) = None \<longrightarrow>
              take (length (requests s2) + 3) (requests (snd r)) =
                requests s2 @ [TransferUsersPlayback tok2 [d] True, GetCurrentPlayback tok2,
                               Play tok2 [trackId trk] (Some d)]
              \<and> (api_play e (requests s2 @ [TransferUsersPlayback tok2 [d] True, GetCurrentPlayback tok2,
                                             Play tok2 [trackId trk] (Some d)]) = None \<longrightarrow>
                   r = (None, s2\<lparr>requests := requests s2 @
                          [TransferUsersPlayback tok2 [d] True, GetCurrentPlayback tok2,
                           Play tok2 [trackId trk] (Some d)]\<rparr>)))"
    if W2: "SPOTIFYCALL_WITH_REFRESH e (SpotifyAPI_getCurrentPlayback e) tok s1 = (Inr (None, tok2), s2)"
      and r: "r = setPlayback e trk s" for tok2 s2 r
  proof (cases "api_transferUsersPlayback e (requests s2 @ [TransferUsersPlayback tok2 [d] True])")
    case (Some err)
    then show ?thesis
      using W W2 r d [symmetric]
      by (simp add: setPlayback_def Let_def SpotifyAPI_transferUsersPlayback_def request_def)
  next
    case None
    let ?s4 = "s2\<lparr>requests := requests s2 @ [TransferUsersPlayback tok2 [d] True, GetCurrentPlayback tok2]\<rparr>"
    obtain w5 s5 where W5: "SPOTIFYCALL_WITH_REFRESH_OPT e ?play tok2 ?s4 = (w5, s5)"
      by (cases "SPOTIFYCALL_WITH_REFRESH_OPT e ?play tok2 ?s4")
    have S: "snd r = s5"
      using W W2 W5 r None d [symmetric]
      by (auto simp: setPlayback_def Let_def SpotifyAPI_getCurrentPlayback_def SpotifyAPI_play_def [abs_def]
          SpotifyAPI_transferUsersPlayback_def request_def split: sum.splits)
    obtain rest where R: "requests s5 = requests ?s4 @ Play tok2 [trackId trk] (Some d) # rest"
      using first [OF W5] by blast
    have 1: "take (length (requests s2) + 1) (requests (snd r)) =
           requests s2 @ [TransferUsersPlayback tok2 [d] True]"
      using S R by simp
    have 3: "take (length (requests s2) + 3) (requests (snd r)) =
                requests s2 @ [TransferUsersPlayback tok2 [d] True, GetCurrentPlayback tok2,
                               Play tok2 [trackId trk] (Some d)]"
      using S R by simp
    have 2: "r = (None, s2\<lparr>requests := requests s2 @
                          [TransferUsersPlayback tok2 [d] True, GetCurrentPlayback tok2,
                           Play tok2 [trackId trk] (Some d)]\<rparr>)"
      if "api_play e (requests s2 @ [TransferUsersPlayback tok2 [d] True, GetCurrentPlayback tok2,
                                             Play tok2 [trackId trk] (Some d)]) = None"
      using W W2 r None d [symmetric] ok [of ?s4 tok2] that
      by (simp add: setPlayback_def Let_def SpotifyAPI_getCurrentPlayback_def SpotifyAPI_play_def [abs_def]
          SpotifyAPI_transferUsersPlayback_def request_def)
    show ?thesis using 1 2 3 None by simp
  qed
  show ?thesis
    unfolding playsTrackOn_def
    by (intro conjI allI impI) (use A B C in blast)+
qed

section \<open>C1: retry after a refreshed token\<close>

text \<open>
  Claim C1, as stated: every operation of the backend, when its call on the service fails
  with the access-expired error, refreshes the token and retries the call exactly once.
  The claim fails where the refresh itself fails: with a service that reports access expired
  and refuses the refresh, queryTracks sends the search once, asks for the refresh, and
  returns the access-expired error with no second search.
\<close>

theorem queryTracks_no_retry:
  "queryTracks refusingEnv ''abc'' 5 staleState =
     (Inl expired,
      staleState\<lparr>requests := [Search ''old'' ''abc'' track 5, RefreshAccessToken ''refresh'' ''id'' ''secret''],
                  clockReads := 1\<rparr>)"
  by (simp add: queryTracks_def SPOTIFYCALL_WITH_REFRESH_def SpotifyAPI_search_def errorHandler_def
      refreshAccessToken_def request_def now_def getAccessToken_def getExpiresAt_def int64_def getErrorCode_def
      refusingEnv_def quietEnv_def staleState_def oldToken_def expired_def badRequest_def)

text \<open>
  Claim C1, amended. Every call on the service that an operation makes through the two
  macros (all of them but the transferUsersPlayback and the second, unchecked
  getCurrentPlayback of setPlayback) behaves as follows, for a call that sends the request
  \<open>mk t\<close> for the token \<open>t\<close> and receives \<open>answer\<close>:
  \<^item> a good answer is kept, with one request sent;
  \<^item> an error other than access expired is returned at once: one request, no refresh, no
    retry;
  \<^item> on access expired the token is refreshed; when the refresh reports an error the
    operation returns without a retry (the first error under SPOTIFYCALL_WITH_REFRESH, the
    error of the refresh under SPOTIFYCALL_WITH_REFRESH_OPT);
  \<^item> when the refresh reports success the request is sent once more, with the access token
    read again, and the answer to this one retry is final: an error, access expired
    included, is returned to the caller;
  \<^item> between the first request and the retry the only request is at most the one refresh
    request.
\<close>

theorem call_with_refresh:
  fixes answer :: "ApiCall list \<Rightarrow> 'a TResult" and answerOpt :: "ApiCall list \<Rightarrow> TResultOpt"
  shows
  "(\<forall>v. answer (requests s @ [mk t]) = Inr v \<longrightarrow>
      SPOTIFYCALL_WITH_REFRESH e (\<lambda>tok. request answer (mk tok)) t s =
        (Inr (v, t), s\<lparr>requests := requests s @ [mk t]\<rparr>))
   \<and> (\<forall>err. answer (requests s @ [mk t]) = Inl err \<and> getErrorCode err \<noteq> SpotifyAccessExpired \<longrightarrow>
      SPOTIFYCALL_WITH_REFRESH e (\<lambda>tok. request answer (mk tok)) t s =
        (Inl err, s\<lparr>requests := requests s @ [mk t]\<rparr>))
   \<and> (\<forall>err rerr s2. answer (requests s @ [mk t]) = Inl err \<and> getErrorCode err = SpotifyAccessExpired \<and>
        refreshAccessToken e (s\<lparr>requests := requests s @ [mk t]\<rparr>) = (Some rerr, s2) \<longrightarrow>
      SPOTIFYCALL_WITH_REFRESH e (\<lambda>tok. request answer (mk tok)) t s = (Inl err, s2))
   \<and> (\<forall>err s2. answer (requests s @ [mk t]) = Inl err \<and> getErrorCode err = SpotifyAccessExpired \<and>
        refreshAccessToken e (s\<lparr>requests := requests s @ [mk t]\<rparr>) = (None, s2) \<longrightarrow>
      snd (SPOTIFYCALL_WITH_REFRESH e (\<lambda>tok. request answer (mk tok)) t s) =
        s2\<lparr>requests := requests s2 @ [mk (getAccessToken s2)]\<rparr>
      \<and> fst (SPOTIFYCALL_WITH_REFRESH e (\<lambda>tok. request answer (mk tok)) t s) =
        (case answer (requests s2 @ [mk (getAccessToken s2)]) of
           Inl err2 \<Rightarrow> Inl err2
         | Inr v \<Rightarrow> Inr (v, getAccessToken s2)))
   \<and> (answerOpt (requests s @ [mk t]) = None \<longrightarrow>
      SPOTIFYCALL_WITH_REFRESH_OPT e (\<lambda>tok. request answerOpt (mk tok)) t s =
        (Inr t, s\<lparr>requests := requests s @ [mk t]\<rparr>))
   \<and> (\<forall>err. answerOpt (requests s @ [mk t]) = Some err \<and> getErrorCode err \<noteq> SpotifyAccessExpired \<longrightarrow>
      SPOTIFYCALL_WITH_REFRESH_OPT e (\<lambda>tok. request answerOpt (mk tok)) t s =
        (Inl err, s\<lparr>requests := requests s @ [mk t]\<rparr>))
   \<and> (\<forall>err rerr s2. answerOpt (requests s @ [mk t]) = Some err \<and> getErrorCode err = SpotifyAccessExpired \<and>
        refreshAccessToken e (s\<lparr>requests := requests s @ [mk t]\<rparr>) = (Some rerr, s2) \<longrightarrow>
      SPOTIFYCALL_WITH_REFRESH_OPT e (\<lambda>tok. request answerOpt (mk tok)) t s = (Inl rerr, s2))
   \<and> (\<forall>err s2. answerOpt (requests s @ [mk t]) = Some err \<and> getErrorCode err = SpotifyAccessExpired \<and>
        refreshAccessToken e (s\<lparr>requests := requests s @ [mk t]\<rparr>) = (None, s2) \<longrightarrow>
      snd (SPOTIFYCALL_WITH_REFRESH_OPT e (\<lambda>tok. request answerOpt (mk tok)) t s) =
        s2\<lparr>requests := requests s2 @ [mk (getAccessToken s2)]\<rparr>
      \<and> fst (SPOTIFYCALL_WITH_REFRESH_OPT e (\<lambda>tok. request answerOpt (mk tok)) t s) =
        (case answerOpt (requests s2 @ [mk (getAccessToken s2)]) of
           Some err2 \<Rightarrow> Inl err2
         | None \<Rightarrow> Inr (getAccessToken s2)))
   \<and> (requests (snd (refreshAccessToken e (s\<lparr>requests := requests s @ [mk t]\<rparr>))) = requests s @ [mk t]
      \<or> requests (snd (refreshAccessToken e (s\<lparr>requests := requests s @ [mk t]\<rparr>))) =
          requests s @ [mk t, RefreshAccessToken (refreshToken (mToken s)) (mClientID s) (mClientSecret s)])"
proof -
  have r: "requests (snd (refreshAccessToken e (s\<lparr>requests := requests s @ [mk t]\<rparr>))) = requests s @ [mk t]
      \<or> requests (snd (refreshAccessToken e (s\<lparr>requests := requests s @ [mk t]\<rparr>))) =
          requests s @ [mk t, RefreshAccessToken (refreshToken (mToken s)) (mClientID s) (mClientSecret s)]"
    using refresh_requests [of e "s\<lparr>requests := requests s @ [mk t]\<rparr>"] by simp
  show ?thesis
    using r
    by (simp add: SPOTIFYCALL_WITH_REFRESH_def SPOTIFYCALL_WITH_REFRESH_OPT_def errorHandler_def
        request_def Let_def split: sum.splits option.splits)
qed

text \<open>
  The amended claim at concrete inputs: a search that fails once with access expired is
  sent twice, with the old and the new token around the refresh; a search that fails with a
  bad request is sent once; a search that fails with access expired while the refresh is
  refused is sent once and returns the access-expired error; the same for a pause, which
  returns the error of the refused refresh.
\<close>

theorem call_with_refresh_witness:
  "SPOTIFYCALL_WITH_REFRESH flakyEnv (\<lambda>tok. request (api_search flakyEnv) (Search tok ''abc'' track 5))
      ''old'' staleState =
     (Inr (\<lparr>paging_tracks = [song]\<rparr>, ''new''),
      staleState\<lparr>mToken := newToken\<lparr>refreshToken := ''refresh''\<rparr>, mTokenReceiveTime := 5001,
                  requests := [Search ''old'' ''abc'' track 5,
                               RefreshAccessToken ''refresh'' ''id'' ''secret'',
                               Search ''new'' ''abc'' track 5],
                  clockReads := 2\<rparr>)
   \<and> SPOTIFYCALL_WITH_REFRESH brokenEnv (\<lambda>tok. request (api_search brokenEnv) (Search tok ''abc'' track 5))
      ''old'' staleState =
     (Inl badRequest, staleState\<lparr>requests := [Search ''old'' ''abc'' track 5]\<rparr>)
   \<and> SPOTIFYCALL_WITH_REFRESH refusingEnv (\<lambda>tok. request (api_search refusingEnv) (Search tok ''abc'' track 5))
      ''old'' staleState =
     (Inl expired,
      staleState\<lparr>requests := [Search ''old'' ''abc'' track 5, RefreshAccessToken ''refresh'' ''id'' ''secret''],
                  clockReads := 1\<rparr>)
   \<and> SPOTIFYCALL_WITH_REFRESH_OPT flakyEnv (\<lambda>tok. request (api_pause flakyEnv) (Pause tok)) ''old'' staleState =
     (Inr ''new'',
      staleState\<lparr>mToken := newToken\<lparr>refreshToken := ''refresh''\<rparr>, mTokenReceiveTime := 5001,
                  requests := [Pause ''old'', RefreshAccessToken ''refresh'' ''id'' ''secret'', Pause ''new''],
                  clockReads := 2\<rparr>)
   \<and> SPOTIFYCALL_WITH_REFRESH_OPT refusingEnv (\<lambda>tok. request (api_pause refusingEnv) (Pause tok)) ''old'' staleState =
     (Inl badRequest,
      staleState\<lparr>requests := [Pause ''old'', RefreshAccessToken ''refresh'' ''id'' ''secret''],
                  clockReads := 1\<rparr>)"
proof -
  let ?mk = "\<lambda>tok. Search tok ''abc'' track 5"
  let ?s2 = "staleState\<lparr>mToken := newToken\<lparr>refreshToken := ''refresh''\<rparr>, mTokenReceiveTime := 5001,
                  requests := [Search ''old'' ''abc'' track 5,
                               RefreshAccessToken ''refresh'' ''id'' ''secret''],
                  clockReads := 2\<rparr>"
  let ?s2' = "staleState\<lparr>requests := [Search ''old'' ''abc'' track 5, RefreshAccessToken ''refresh'' ''id'' ''secret''],
                  clockReads := 1\<rparr>"
  let ?q2 = "staleState\<lparr>mToken := newToken\<lparr>refreshToken := ''refresh''\<rparr>, mTokenReceiveTime := 5001,
                  requests := [Pause ''old'', RefreshAccessToken ''refresh'' ''id'' ''secret''],
                  clockReads := 2\<rparr>"
  let ?q2' = "staleState\<lparr>requests := [Pause ''old'', RefreshAccessToken ''refresh'' ''id'' ''secret''],
                  clockReads := 1\<rparr>"
  let ?W = "\<lambda>e. SPOTIFYCALL_WITH_REFRESH e (\<lambda>tok. request (api_search e) (Search tok ''abc'' track 5))
      ''old'' staleState"
  let ?V = "\<lambda>e. SPOTIFYCALL_WITH_REFRESH_OPT e (\<lambda>tok. request (api_pause e) (Pause tok)) ''old'' staleState"
  have p1: "api_search flakyEnv (requests staleState @ [?mk ''old'']) = Inl expired
      \<and> getErrorCode expired = SpotifyAccessExpired
      \<and> refreshAccessToken flakyEnv (staleState\<lparr>requests := requests staleState @ [?mk ''old'']\<rparr>) = (None, ?s2)"
    by (simp add: refreshAccessToken_def request_def now_def getExpiresAt_def int64_def getErrorCode_def
        flakyEnv_def quietEnv_def staleState_def oldToken_def newToken_def expired_def)
  have p2: "api_search brokenEnv (requests staleState @ [?mk ''old'']) = Inl badRequest
      \<and> getErrorCode badRequest \<noteq> SpotifyAccessExpired"
    by (simp add: getErrorCode_def brokenEnv_def quietEnv_def badRequest_def)
  have p3: "api_search refusingEnv (requests staleState @ [?mk ''old'']) = Inl expired
      \<and> getErrorCode expired = SpotifyAccessExpired
      \<and> refreshAccessToken refusingEnv (staleState\<lparr>requests := requests staleState @ [?mk ''old'']\<rparr>)
          = (Some badRequest, ?s2')"
    by (simp add: refreshAccessToken_def request_def now_def getExpiresAt_def int64_def getErrorCode_def
        refusingEnv_def quietEnv_def staleState_def oldToken_def newToken_def expired_def)
  have p4: "api_pause flakyEnv (requests staleState @ [Pause ''old'']) = Some expired
      \<and> getErrorCode expired = SpotifyAccessExpired
      \<and> refreshAccessToken flakyEnv (staleState\<lparr>requests := requests staleState @ [Pause ''old'']\<rparr>) = (None, ?q2)"
    by (simp add: refreshAccessToken_def request_def now_def getExpiresAt_def int64_def getErrorCode_def
        flakyEnv_def quietEnv_def staleState_def oldToken_def newToken_def expired_def)
  have p5: "api_pause refusingEnv (requests staleState @ [Pause ''old'']) = Some expired
      \<and> getErrorCode expired = SpotifyAccessExpired
      \<and> refreshAccessToken refusingEnv (staleState\<lparr>requests := requests staleState @ [Pause ''old'']\<rparr>)
          = (Some badRequest, ?q2')"
    by (simp add: refreshAccessToken_def request_def now_def getExpiresAt_def int64_def getErrorCode_def
        refusingEnv_def quietEnv_def staleState_def oldToken_def newToken_def expired_def)
  note T1 = call_with_refresh [of "api_search flakyEnv" staleState ?mk "''old''" flakyEnv "\<lambda>h. None"]
  note T2 = call_with_refresh [of "api_search brokenEnv" staleState ?mk "''old''" brokenEnv "\<lambda>h. None"]
  note T3 = call_with_refresh [of "api_search refusingEnv" staleState ?mk "''old''" refusingEnv "\<lambda>h. None"]
  note T4 = call_with_refresh [of "\<lambda>h. Inr ()" staleState Pause "''old''" flakyEnv "api_pause flakyEnv"]
  note T5 = call_with_refresh [of "\<lambda>h. Inr ()" staleState Pause "''old''" refusingEnv "api_pause refusingEnv"]
  have c1: "snd (?W flakyEnv) = ?s2\<lparr>requests := requests ?s2 @ [?mk (getAccessToken ?s2)]\<rparr>
      \<and> fst (?W flakyEnv) =
        (case api_search flakyEnv (requests ?s2 @ [?mk (getAccessToken ?s2)]) of
           Inl err2 \<Rightarrow> Inl err2
         | Inr v \<Rightarrow> Inr (v, getAccessToken ?s2))"
    using T1 [THEN conjunct2, THEN conjunct2, THEN conjunct2, THEN conjunct1, rule_format, OF p1] .
  have c2: "?W brokenEnv = (Inl badRequest, staleState\<lparr>requests := requests staleState @ [?mk ''old'']\<rparr>)"
    using T2 [THEN conjunct2, THEN conjunct1, rule_format, OF p2] .
  have c3: "?W refusingEnv = (Inl expired, ?s2')"
    using T3 [THEN conjunct2, THEN conjunct2, THEN conjunct1, rule_format, OF p3] .
  have c4: "snd (?V flakyEnv) = ?q2\<lparr>requests := requests ?q2 @ [Pause (getAccessToken ?q2)]\<rparr>
      \<and> fst (?V flakyEnv) =
        (case api_pause flakyEnv (requests ?q2 @ [Pause (getAccessToken ?q2)]) of
           Some err2 \<Rightarrow> Inl err2
         | None \<Rightarrow> Inr (getAccessToken ?q2))"
    using T4 [THEN conjunct2, THEN conjunct2, THEN conjunct2, THEN conjunct2, THEN conjunct2,
        THEN conjunct2, THEN conjunct2, THEN conjunct1, rule_format, OF p4] .
  have c5: "?V refusingEnv = (Inl badRequest, ?q2')"
    using T5 [THEN conjunct2, THEN conjunct2, THEN conjunct2, THEN conjunct2, THEN conjunct2,
        THEN conjunct2, THEN conjunct1, rule_format, OF p5] .
  have "?W flakyEnv =
     (Inr (\<lparr>paging_tracks = [song]\<rparr>, ''new''),
      staleState\<lparr>mToken := newToken\<lparr>refreshToken := ''refresh''\<rparr>, mTokenReceiveTime := 5001,
                  requests := [Search ''old'' ''abc'' track 5,
                               RefreshAccessToken ''refresh'' ''id'' ''secret'',
                               Search ''new'' ''abc'' track 5],
                  clockReads := 2\<rparr>)"
    using c1 by (simp add: prod_eq_iff getAccessToken_def newToken_def flakyEnv_def quietEnv_def staleState_def)
  moreover have "?W brokenEnv = (Inl badRequest, staleState\<lparr>requests := [Search ''old'' ''abc'' track 5]\<rparr>)"
    using c2 by (simp add: staleState_def)
  moreover have "?V flakyEnv =
     (Inr ''new'',
      staleState\<lparr>mToken := newToken\<lparr>refreshToken := ''refresh''\<rparr>, mTokenReceiveTime := 5001,
                  requests := [Pause ''old'', RefreshAccessToken ''refresh'' ''id'' ''secret'', Pause ''new''],
                  clockReads := 2\<rparr>)"
    using c4 by (simp add: prod_eq_iff getAccessToken_def newToken_def flakyEnv_def quietEnv_def staleState_def)
  ultimately show ?thesis
    using c3 c5 by simp
qed

section \<open>C3: the members of ErrorCode\<close>


section \<open>C4: the states of the scheduler and its period\<close>

text \<open>
  Claim C4. The state of the scheduler is one of exactly the four states Idle, PlayNextSong,
  CheckPlaying and Playing, and a new scheduler is in the state Idle. The polling period is
  configurable with a default of 1000 milliseconds: a scheduler constructed without a
  configured period has the period 1000, and one constructed with a configured period has
  that period.
\<close>

theorem scheduler_states_and_period:
  "(UNIV :: SchedulerState set) = {Idle, PlayNextSong, CheckPlaying, Playing}
   \<and> card (UNIV :: SchedulerState set) = 4
   \<and> mSchedulerState (newSimpleScheduler datastore musicbackend configured) = Idle
   \<and> cScheduleIntervalTimeMs (newSimpleScheduler datastore musicbackend None) = 1000
   \<and> cScheduleIntervalTimeMs (newSimpleScheduler datastore musicbackend (Some ms)) = ms"
proof -
  have u: "(UNIV :: SchedulerState set) = {Idle, PlayNextSong, CheckPlaying, Playing}"
    by (auto intro: SchedulerState.exhaust)
  show ?thesis
    by (simp add: u newSimpleScheduler_def)
qed

section \<open>C5: reading the last playback\<close>

text \<open>
  Claim C5. getLastPlayback returns the cached value mLastPlaybackTrack and changes nothing:
  the scheduler and the state of the backend are as before, and no request has been sent
  to the service.
\<close>

theorem getLastPlayback_reads_cache:
  "fst (getLastPlayback sch s) = mLastPlaybackTrack sch
   \<and> fst (snd (getLastPlayback sch s)) = sch
   \<and> snd (snd (getLastPlayback sch s)) = s
   \<and> requests (snd (snd (getLastPlayback sch s))) = requests s"
  by (simp add: getLastPlayback_def)

section \<open>C6: the current playback\<close>

text \<open>
  Claim C6. When the service has answered the playback request (after the retry, if there
  was one) with \<open>playback\<close>, getCurrentPlayback succeeds with an optional PlaybackTrack. It
  is absent exactly when the service reports no playback or a playback without a current
  track; otherwise it is a snapshot of the current track (uri, name, album, artists joined
  by " & ", first image, duration) with the isPlaying flag and the progress of the playback.
\<close>

theorem getCurrentPlayback_result:
  assumes "SPOTIFYCALL_WITH_REFRESH e (SpotifyAPI_getCurrentPlayback e) (getAccessToken s) s
             = (Inr (playback, tok), s1)"
  shows "\<exists>r. getCurrentPlayback e s = (Inr r, s1)
     \<and> (r = None \<longleftrightarrow>
          (playback = None \<or> (\<exists>pb. playback = Some pb \<and> playback_currentPlayingTrack pb = None)))
     \<and> (\<forall>pb trk. playback = Some pb \<and> playback_currentPlayingTrack pb = Some trk \<longrightarrow>
          (\<exists>pt. r = Some pt
             \<and> trackId pt = track_uri trk
             \<and> title pt = track_name trk
             \<and> album pt = album_name (track_album trk)
             \<and> artist pt = artistLoop (track_artists trk) True []
             \<and> iconUri pt = (case album_images (track_album trk) of [] \<Rightarrow> [] | img # imgs \<Rightarrow> image_url img)
             \<and> durationMs pt = track_duration trk
             \<and> isPlaying pt = playback_isPlaying pb
             \<and> progressMs pt = playback_progressMs pb))"
  using assms by (auto simp: getCurrentPlayback_def Let_def split: option.splits)

text \<open>At concrete inputs: a playing track with two artists and two images, and no playback.\<close>

theorem getCurrentPlayback_result_witness:
  "(\<exists>pt. getCurrentPlayback playingEnv staleState =
            (Inr (Some pt), staleState\<lparr>requests := [GetCurrentPlayback ''old'']\<rparr>)
         \<and> trackId pt = ''spotify:track:1'' \<and> title pt = ''Song'' \<and> album pt = ''Album''
         \<and> artist pt = ''A & B'' \<and> iconUri pt = ''big'' \<and> durationMs pt = 180000
         \<and> isPlaying pt \<and> progressMs pt = 1234)
   \<and> getCurrentPlayback quietEnv staleState =
        (Inr None, staleState\<lparr>requests := [GetCurrentPlayback ''old'']\<rparr>)"
proof -
  let ?s1 = "staleState\<lparr>requests := [GetCurrentPlayback ''old'']\<rparr>"
  let ?pb = "\<lparr>playback_currentPlayingTrack = Some song, playback_isPlaying = True,
        playback_progressMs = 1234, playback_device = kitchen\<rparr>"
  have w1: "SPOTIFYCALL_WITH_REFRESH playingEnv (SpotifyAPI_getCurrentPlayback playingEnv)
              (getAccessToken staleState) staleState = (Inr (Some ?pb, ''old''), ?s1)"
    by (simp add: SPOTIFYCALL_WITH_REFRESH_def SPOTIFYCALL_WITH_REFRESH_OPT_def errorHandler_def refreshAccessToken_def request_def now_def getAccessToken_def getExpiresAt_def int64_def getErrorCode_def SpotifyAPI_search_def SpotifyAPI_getAvailableDevices_def SpotifyAPI_getCurrentPlayback_def SpotifyAPI_transferUsersPlayback_def SpotifyAPI_play_def SpotifyAPI_pause_def SpotifyAPI_setVolume_def SpotifyAPI_getTrack_def playingEnv_def quietEnv_def staleState_def oldToken_def)
  have w2: "SPOTIFYCALL_WITH_REFRESH quietEnv (SpotifyAPI_getCurrentPlayback quietEnv)
              (getAccessToken staleState) staleState = (Inr (None, ''old''), ?s1)"
    by (simp add: SPOTIFYCALL_WITH_REFRESH_def SPOTIFYCALL_WITH_REFRESH_OPT_def errorHandler_def refreshAccessToken_def request_def now_def getAccessToken_def getExpiresAt_def int64_def getErrorCode_def SpotifyAPI_search_def SpotifyAPI_getAvailableDevices_def SpotifyAPI_getCurrentPlayback_def SpotifyAPI_transferUsersPlayback_def SpotifyAPI_play_def SpotifyAPI_pause_def SpotifyAPI_setVolume_def SpotifyAPI_getTrack_def quietEnv_def staleState_def oldToken_def)
  have "\<exists>pt. getCurrentPlayback playingEnv staleState = (Inr (Some pt), ?s1)
         \<and> trackId pt = ''spotify:track:1'' \<and> title pt = ''Song'' \<and> album pt = ''Album''
         \<and> artist pt = ''A & B'' \<and> iconUri pt = ''big'' \<and> durationMs pt = 180000
         \<and> isPlaying pt \<and> progressMs pt = 1234"
    using getCurrentPlayback_result [OF w1]
    by (auto simp: song_def)
  moreover have "getCurrentPlayback quietEnv staleState = (Inr None, ?s1)"
    using getCurrentPlayback_result [OF w2] by auto
  ultimately show ?thesis by simp
qed

section \<open>C8: refreshAccessToken\<close>

text \<open>
  Claim C8. For every call of refreshAccessToken: with an empty stored refresh token it
  returns an InvalidValue error and changes nothing. Otherwise, when the reading of the
  clock, the receive time plus expires-in, and that sum minus ten all lie in the 64-bit
  range (so that no operation of the source overflows): when the clock reads a time
  strictly before the receive time plus expires-in minus ten seconds, it returns success,
  sends no request to the service and leaves the stored token and the receive time as they
  were; when it does not, and the service answers the refresh request with a token, it
  returns success, the stored token is that token with the previous refresh token set into
  it, the receive time is the second reading of the clock, and the one request sent is the
  refresh request.
\<close>

theorem refreshAccessToken_cases:
  "(refreshToken (mToken s) = [] \<longrightarrow>
      refreshAccessToken e s =
        (Some \<lparr>mCode = InvalidValue, mMsg = ''No refresh token available''\<rparr>, s))
   \<and> (refreshToken (mToken s) \<noteq> [] \<and>
        fitsInt64 (system_clock e (clockReads s)) \<and>
        fitsInt64 (mTokenReceiveTime s + expiresIn (mToken s)) \<and>
        fitsInt64 (mTokenReceiveTime s + expiresIn (mToken s) - 10) \<and>
        system_clock e (clockReads s) < mTokenReceiveTime s + expiresIn (mToken s) - 10 \<longrightarrow>
      fst (refreshAccessToken e s) = None
      \<and> requests (snd (refreshAccessToken e s)) = requests s
      \<and> mToken (snd (refreshAccessToken e s)) = mToken s
      \<and> mTokenReceiveTime (snd (refreshAccessToken e s)) = mTokenReceiveTime s)
   \<and> (refreshToken (mToken s) \<noteq> [] \<and>
        fitsInt64 (system_clock e (clockReads s)) \<and>
        fitsInt64 (mTokenReceiveTime s + expiresIn (mToken s)) \<and>
        fitsInt64 (mTokenReceiveTime s + expiresIn (mToken s) - 10) \<and>
        \<not> system_clock e (clockReads s) < mTokenReceiveTime s + expiresIn (mToken s) - 10 \<and>
        api_refreshAccessToken e
          (requests s @ [RefreshAccessToken (refreshToken (mToken s)) (mClientID s) (mClientSecret s)])
          = Inr tok \<longrightarrow>
      fst (refreshAccessToken e s) = None
      \<and> mToken (snd (refreshAccessToken e s)) = tok\<lparr>refreshToken := refreshToken (mToken s)\<rparr>
      \<and> refreshToken (mToken (snd (refreshAccessToken e s))) = refreshToken (mToken s)
      \<and> mTokenReceiveTime (snd (refreshAccessToken e s)) = int64 (system_clock e (Suc (clockReads s)))
      \<and> requests (snd (refreshAccessToken e s)) =
          requests s @ [RefreshAccessToken (refreshToken (mToken s)) (mClientID s) (mClientSecret s)])"
  by (simp add: refreshAccessToken_def now_def request_def getExpiresAt_def int64_fits)

text \<open>
  At concrete inputs: a token without refresh token; a token received at second 4000, read
  at second 5000; a token received at second 1000, read at second 5000.
\<close>

theorem refreshAccessToken_cases_witness:
  "refreshAccessToken quietEnv (staleState\<lparr>mToken := newToken\<rparr>) =
     (Some \<lparr>mCode = InvalidValue, mMsg = ''No refresh token available''\<rparr>,
      staleState\<lparr>mToken := newToken\<rparr>)
   \<and> fst (refreshAccessToken quietEnv (staleState\<lparr>mTokenReceiveTime := 4000\<rparr>)) = None
   \<and> requests (snd (refreshAccessToken quietEnv (staleState\<lparr>mTokenReceiveTime := 4000\<rparr>))) = []
   \<and> mToken (snd (refreshAccessToken quietEnv (staleState\<lparr>mTokenReceiveTime := 4000\<rparr>))) = oldToken
   \<and> fst (refreshAccessToken quietEnv staleState) = None
   \<and> mToken (snd (refreshAccessToken quietEnv staleState)) = newToken\<lparr>refreshToken := ''refresh''\<rparr>
   \<and> mTokenReceiveTime (snd (refreshAccessToken quietEnv staleState)) = 5001
   \<and> requests (snd (refreshAccessToken quietEnv staleState)) = [RefreshAccessToken ''refresh'' ''id'' ''secret'']"
  using refreshAccessToken_cases [of "staleState\<lparr>mToken := newToken\<rparr>" quietEnv]
    refreshAccessToken_cases [of "staleState\<lparr>mTokenReceiveTime := 4000\<rparr>" quietEnv]
    refreshAccessToken_cases [of staleState quietEnv newToken]
  by (simp add: quietEnv_def staleState_def oldToken_def newToken_def fitsInt64_def int64_def)

section \<open>C9: pause\<close>

text \<open>
  Claim C9, as stated, has two calls of pause in succession do what one call does. With a
  service that still reports the playback as playing after the pause request, the first call
  sends one pause request and the second call sends another.
\<close>

theorem pause_twice_lagging:
  "pause laggingEnv staleState =
     (None, staleState\<lparr>requests := [GetCurrentPlayback ''old'', Pause ''old'']\<rparr>)
   \<and> pause laggingEnv (snd (pause laggingEnv staleState)) =
     (None, staleState\<lparr>requests := [GetCurrentPlayback ''old'', Pause ''old'',
                                    GetCurrentPlayback ''old'', Pause ''old'']\<rparr>)"
  by (simp add: pause_def getCurrentPlayback_def SPOTIFYCALL_WITH_REFRESH_def
      SPOTIFYCALL_WITH_REFRESH_OPT_def request_def getAccessToken_def
      SpotifyAPI_getCurrentPlayback_def SpotifyAPI_pause_def
      laggingEnv_def quietEnv_def staleState_def oldToken_def song_def kitchen_def)

text \<open>
  Claim C9, amended. Whenever getCurrentPlayback reports no playback, or a playback that is
  not playing, pause returns success in the state that the status read left, and no pause
  request has been sent. When it reports a playback that is playing, the next request is
  the pause request, with the token read before the status read, and pause succeeds when
  the service accepts it; an error of the status read is returned. Hence a second pause in
  succession returns success and adds no pause request to those of the first when the
  status read it makes reports no playback or a playback that is not playing; while the
  service still reports the playback as playing, the second call sends the pause request
  again.
\<close>

theorem pause_cases:
  "(\<forall>pb s1. getCurrentPlayback e s = (Inr pb, s1) \<and> (pb = None \<or> (\<exists>pt. pb = Some pt \<and> \<not> isPlaying pt)) \<longrightarrow>
      pause e s = (None, s1) \<and> sendsOnly (\<lambda>c. \<not> isPause c) s s1)
   \<and> (\<forall>pt s1. getCurrentPlayback e s = (Inr (Some pt), s1) \<and> isPlaying pt \<longrightarrow>
        take (Suc (length (requests s1))) (requests (snd (pause e s))) = requests s1 @ [Pause (getAccessToken s)]
        \<and> (api_pause e (requests s1 @ [Pause (getAccessToken s)]) = None \<longrightarrow>
             pause e s = (None, s1\<lparr>requests := requests s1 @ [Pause (getAccessToken s)]\<rparr>)))
   \<and> (\<forall>err s1. getCurrentPlayback e s = (Inl err, s1) \<longrightarrow> pause e s = (Some err, s1))
   \<and> (\<forall>pb s2. getCurrentPlayback e (snd (pause e s)) = (Inr pb, s2) \<and>
        (pb = None \<or> (\<exists>pt. pb = Some pt \<and> \<not> isPlaying pt)) \<longrightarrow>
      pause e (snd (pause e s)) = (None, s2)
      \<and> filter isPause (requests s2) = filter isPause (requests (snd (pause e s))))
   \<and> (\<forall>pt s2. getCurrentPlayback e (snd (pause e s)) = (Inr (Some pt), s2) \<and> isPlaying pt \<longrightarrow>
        take (Suc (length (requests s2))) (requests (snd (pause e (snd (pause e s))))) =
          requests s2 @ [Pause (getAccessToken (snd (pause e s)))])"
proof -
  have one: "pause e x = (None, x1) \<and> sendsOnly (\<lambda>c. \<not> isPause c) x x1"
    if "getCurrentPlayback e x = (Inr pb, x1)" "pb = None \<or> (\<exists>pt. pb = Some pt \<and> \<not> isPlaying pt)"
    for x x1 pb
  proof
    show "pause e x = (None, x1)"
      using that by (auto simp: pause_def Let_def)
    show "sendsOnly (\<lambda>c. \<not> isPause c) x x1"
      by (rule getCurrentPlayback_sends [OF _ _ that(1)]) simp_all
  qed
  have two: "take (Suc (length (requests x1))) (requests (snd (pause e x))) = requests x1 @ [Pause (getAccessToken x)]
        \<and> (api_pause e (requests x1 @ [Pause (getAccessToken x)]) = None \<longrightarrow>
             pause e x = (None, x1\<lparr>requests := requests x1 @ [Pause (getAccessToken x)]\<rparr>))"
    if g: "getCurrentPlayback e x = (Inr (Some pt), x1)" and p: "isPlaying pt" for x x1 pt
  proof -
    obtain w x2 where W: "SPOTIFYCALL_WITH_REFRESH_OPT e (\<lambda>tok. request (api_pause e) (Pause tok)) (getAccessToken x) x1 = (w, x2)"
      by (cases "SPOTIFYCALL_WITH_REFRESH_OPT e (\<lambda>tok. request (api_pause e) (Pause tok)) (getAccessToken x) x1")
    have P: "snd (pause e x) = x2"
      using g p W by (auto simp: pause_def Let_def SpotifyAPI_pause_def [abs_def] split: sum.splits)
    obtain rest where "requests x2 = requests x1 @ Pause (getAccessToken x) # rest"
      using WITH_REFRESH_OPT_first [OF W] by blast
    then have A: "take (Suc (length (requests x1))) (requests (snd (pause e x))) = requests x1 @ [Pause (getAccessToken x)]"
      using P by simp
    have B: "pause e x = (None, x1\<lparr>requests := requests x1 @ [Pause (getAccessToken x)]\<rparr>)"
      if "api_pause e (requests x1 @ [Pause (getAccessToken x)]) = None"
      using g p that
      by (simp add: pause_def Let_def SpotifyAPI_pause_def SPOTIFYCALL_WITH_REFRESH_OPT_def request_def)
    show ?thesis using A B by blast
  qed
  have three: "pause e s = (Some err, s1)" if "getCurrentPlayback e s = (Inl err, s1)" for err s1
    using that by (simp add: pause_def Let_def)
  show ?thesis
    by (intro conjI allI impI; (elim conjE)?)
       (use one two three sendsOnly_filter [where P = isPause] in blast)+
qed

text \<open>
  At concrete inputs: no playback; a playback that plays until it is paused, where the
  first pause sends the pause request and the second sends only the status read; and a
  playback that the service keeps reporting as playing, where the second pause sends the
  pause request again.
\<close>

theorem pause_cases_witness:
  "pause quietEnv staleState = (None, staleState\<lparr>requests := [GetCurrentPlayback ''old'']\<rparr>)
   \<and> pause playingEnv staleState =
       (None, staleState\<lparr>requests := [GetCurrentPlayback ''old'', Pause ''old'']\<rparr>)
   \<and> pause playingEnv (snd (pause playingEnv staleState)) =
       (None, staleState\<lparr>requests := [GetCurrentPlayback ''old'', Pause ''old'', GetCurrentPlayback ''old'']\<rparr>)
   \<and> filter isPause (requests (snd (pause playingEnv (snd (pause playingEnv staleState))))) =
       filter isPause (requests (snd (pause playingEnv staleState)))
   \<and> take 4 (requests (snd (pause laggingEnv (snd (pause laggingEnv staleState))))) =
       [GetCurrentPlayback ''old'', Pause ''old'', GetCurrentPlayback ''old'', Pause ''old'']"
proof -
  let ?s1 = "staleState\<lparr>requests := [GetCurrentPlayback ''old'']\<rparr>"
  let ?s2 = "staleState\<lparr>requests := [GetCurrentPlayback ''old'', Pause ''old'']\<rparr>"
  let ?s3 = "staleState\<lparr>requests := [GetCurrentPlayback ''old'', Pause ''old'', GetCurrentPlayback ''old'']\<rparr>"
  have g1: "getCurrentPlayback quietEnv staleState = (Inr None, ?s1) \<and> ((None :: PlaybackTrack option) = None
      \<or> (\<exists>pt. (None :: PlaybackTrack option) = Some pt \<and> \<not> isPlaying pt))"
    by (simp add: getCurrentPlayback_def SPOTIFYCALL_WITH_REFRESH_def request_def getAccessToken_def
        SpotifyAPI_getCurrentPlayback_def quietEnv_def staleState_def oldToken_def)
  have "\<exists>pt. getCurrentPlayback playingEnv staleState = (Inr (Some pt), ?s1) \<and> isPlaying pt"
    by (simp add: getCurrentPlayback_def SPOTIFYCALL_WITH_REFRESH_def request_def getAccessToken_def
        SpotifyAPI_getCurrentPlayback_def playingEnv_def quietEnv_def staleState_def oldToken_def)
  then obtain pt0 where g0: "getCurrentPlayback playingEnv staleState = (Inr (Some pt0), ?s1) \<and> isPlaying pt0"
    by blast
  have a0: "api_pause playingEnv (requests ?s1 @ [Pause (getAccessToken staleState)]) = None"
    by (simp add: playingEnv_def quietEnv_def)
  have p1: "pause playingEnv staleState = (None, ?s2)"
    using pause_cases [of playingEnv staleState, THEN conjunct2, THEN conjunct1, rule_format, OF g0,
        THEN conjunct2, rule_format, OF a0]
    by (simp add: getAccessToken_def staleState_def oldToken_def)
  have "\<exists>pt. getCurrentPlayback playingEnv ?s2 = (Inr (Some pt), ?s3) \<and> \<not> isPlaying pt"
    by (simp add: getCurrentPlayback_def SPOTIFYCALL_WITH_REFRESH_def request_def getAccessToken_def
        SpotifyAPI_getCurrentPlayback_def playingEnv_def quietEnv_def staleState_def oldToken_def)
  then obtain pt where g2: "getCurrentPlayback playingEnv (snd (pause playingEnv staleState)) = (Inr (Some pt), ?s3)
      \<and> (Some pt = None \<or> (\<exists>pt'. Some pt = Some pt' \<and> \<not> isPlaying pt'))"
    using p1 by auto
  have l1: "pause laggingEnv staleState = (None, ?s2)"
    by (simp add: pause_def getCurrentPlayback_def SPOTIFYCALL_WITH_REFRESH_def
      SPOTIFYCALL_WITH_REFRESH_OPT_def request_def getAccessToken_def
      SpotifyAPI_getCurrentPlayback_def SpotifyAPI_pause_def
      laggingEnv_def quietEnv_def staleState_def oldToken_def)
  have "\<exists>pt. getCurrentPlayback laggingEnv ?s2 = (Inr (Some pt), ?s3) \<and> isPlaying pt"
    by (simp add: getCurrentPlayback_def SPOTIFYCALL_WITH_REFRESH_def request_def getAccessToken_def
        SpotifyAPI_getCurrentPlayback_def laggingEnv_def quietEnv_def staleState_def oldToken_def)
  then obtain pt3 where g3: "getCurrentPlayback laggingEnv (snd (pause laggingEnv staleState)) = (Inr (Some pt3), ?s3)
      \<and> isPlaying pt3"
    using l1 by auto
  have a: "pause quietEnv staleState = (None, ?s1)"
    using pause_cases [of quietEnv staleState, THEN conjunct1, rule_format, OF g1] by simp
  have b: "pause playingEnv (snd (pause playingEnv staleState)) = (None, ?s3)
      \<and> filter isPause (requests ?s3) = filter isPause (requests (snd (pause playingEnv staleState)))"
    using pause_cases [of playingEnv staleState, THEN conjunct2, THEN conjunct2, THEN conjunct2,
        THEN conjunct1, rule_format, OF g2] .
  have c: "take (Suc (length (requests ?s3))) (requests (snd (pause laggingEnv (snd (pause laggingEnv staleState))))) =
          requests ?s3 @ [Pause (getAccessToken (snd (pause laggingEnv staleState)))]"
    using pause_cases [of laggingEnv staleState, THEN conjunct2, THEN conjunct2, THEN conjunct2,
        THEN conjunct2, rule_format, OF g3] .
  have c': "take 4 (requests (snd (pause laggingEnv (snd (pause laggingEnv staleState))))) =
       [GetCurrentPlayback ''old'', Pause ''old'', GetCurrentPlayback ''old'', Pause ''old'']"
    using c l1 by (simp add: getAccessToken_def staleState_def oldToken_def eval_nat_numeral)
  show ?thesis
    using a b p1 c' by simp
qed

section \<open>C10: the device of setPlayback\<close>

text \<open>
  Claim C10. When the service has answered the device request (after the retry, if there
  was one) with the list \<open>devices\<close>: with an empty list setPlayback fails with
  SpotifyNoDevice and has sent no request that starts or moves playback. Otherwise it
  targets the first device whose name is the value configured under Spotify/playingDevice
  when there is such a device, and the first device of the list when no name matches or
  the configuration has no such value: every request that starts or moves playback names
  that device, and the run plays the track on it (the transfer, when the service reports no
  playback, and the play request are sent for that device, and the run succeeds when the
  service accepts them).
\<close>

theorem setPlayback_device:
  assumes W: "SPOTIFYCALL_WITH_REFRESH e (SpotifyAPI_getAvailableDevices e) (getAccessToken s) s
                = (Inr (devices, tok), s1)"
  shows "(devices = [] \<longrightarrow>
            setPlayback e trk s =
              (Some \<lparr>mCode = SpotifyNoDevice,
                     mMsg = ''No devices for playing the track available''\<rparr>, s1)
            \<and> sendsOnly (\<lambda>c. playbackDevices c = []) s s1)
       \<and> (devices \<noteq> [] \<longrightarrow>
            (\<forall>v d. getValueString e ''Spotify'' ''playingDevice'' = Inr v \<and>
                   find (\<lambda>x. device_name x = v) devices = Some d \<longrightarrow>
                   targetsDevice d trk s (setPlayback e trk s)
                   \<and> playsTrackOn e trk d tok s1 (setPlayback e trk s))
          \<and> (\<forall>v. getValueString e ''Spotify'' ''playingDevice'' = Inr v \<and>
                   (\<forall>x\<in>set devices. device_name x \<noteq> v) \<longrightarrow>
                   targetsDevice (hd devices) trk s (setPlayback e trk s)
                   \<and> playsTrackOn e trk (hd devices) tok s1 (setPlayback e trk s))
          \<and> (\<forall>err. getValueString e ''Spotify'' ''playingDevice'' = Inl err \<longrightarrow>
                   targetsDevice (hd devices) trk s (setPlayback e trk s)
                   \<and> playsTrackOn e trk (hd devices) tok s1 (setPlayback e trk s)))"
proof (cases devices)
  case Nil
  have "sendsOnly (\<lambda>c. playbackDevices c = []) s s1"
    by (rule sendsOnly_WITH_REFRESH [where P = "\<lambda>c. playbackDevices c = []"
          and f = "SpotifyAPI_getAvailableDevices e", OF _ _ W])
       (auto simp: SpotifyAPI_getAvailableDevices_def sendsOnly_iff request_def)
  then show ?thesis
    using W Nil by (simp add: setPlayback_def Let_def)
next
  case (Cons d0 ds)
  show ?thesis
    using setPlayback_targets [OF W [unfolded Cons] refl, of trk]
      setPlayback_plays [OF W [unfolded Cons] refl, of trk] Cons
    by (auto simp: find_None_names)
qed

text \<open>
  At concrete inputs, with the devices kitchen and office: the configured name office and a
  configured name that no device has, both without a playback, so that the playback is
  transferred first; no configured name, with a playback; and a service without devices.
\<close>

theorem setPlayback_device_witness:
  "setPlayback officeEnv songTrack staleState =
     (None, staleState\<lparr>requests :=
        [GetAvailableDevices ''old'', GetCurrentPlayback ''old'',
         TransferUsersPlayback ''old'' [office] True, GetCurrentPlayback ''old'',
         Play ''old'' [''spotify:track:1''] (Some office)]\<rparr>)
   \<and> setPlayback atticEnv songTrack staleState =
     (None, staleState\<lparr>requests :=
        [GetAvailableDevices ''old'', GetCurrentPlayback ''old'',
         TransferUsersPlayback ''old'' [kitchen] True, GetCurrentPlayback ''old'',
         Play ''old'' [''spotify:track:1''] (Some kitchen)]\<rparr>)
   \<and> setPlayback laggingEnv songTrack staleState =
     (None, staleState\<lparr>requests :=
        [GetAvailableDevices ''old'', GetCurrentPlayback ''old'', GetCurrentPlayback ''old'',
         Play ''old'' [''spotify:track:1''] (Some kitchen)]\<rparr>)
   \<and> targetsDevice office songTrack staleState (setPlayback officeEnv songTrack staleState)
   \<and> targetsDevice kitchen songTrack staleState (setPlayback atticEnv songTrack staleState)
   \<and> targetsDevice kitchen songTrack staleState (setPlayback laggingEnv songTrack staleState)
   \<and> setPlayback noDeviceEnv songTrack staleState =
       (Some \<lparr>mCode = SpotifyNoDevice, mMsg = ''No devices for playing the track available''\<rparr>,
        staleState\<lparr>requests := [GetAvailableDevices ''old'']\<rparr>)"
proof -
  let ?s1 = "staleState\<lparr>requests := [GetAvailableDevices ''old'']\<rparr>"
  let ?s2 = "staleState\<lparr>requests := [GetAvailableDevices ''old'', GetCurrentPlayback ''old'']\<rparr>"
  let ?pb = "\<lparr>playback_currentPlayingTrack = Some song, playback_isPlaying = True,
        playback_progressMs = 1234, playback_device = kitchen\<rparr>"
  have t: "trackId songTrack = ''spotify:track:1''"
    by (simp add: songTrack_def toBaseTrack_def song_def)
  have ne: "[kitchen, office] \<noteq> []" by simp
  have w1: "SPOTIFYCALL_WITH_REFRESH officeEnv (SpotifyAPI_getAvailableDevices officeEnv)
              (getAccessToken staleState) staleState = (Inr ([kitchen, office], ''old''), ?s1)"
    by (simp add: SPOTIFYCALL_WITH_REFRESH_def request_def getAccessToken_def SpotifyAPI_getAvailableDevices_def
        officeEnv_def quietEnv_def staleState_def oldToken_def)
  have w2: "SPOTIFYCALL_WITH_REFRESH atticEnv (SpotifyAPI_getAvailableDevices atticEnv)
              (getAccessToken staleState) staleState = (Inr ([kitchen, office], ''old''), ?s1)"
    by (simp add: SPOTIFYCALL_WITH_REFRESH_def request_def getAccessToken_def SpotifyAPI_getAvailableDevices_def
        atticEnv_def quietEnv_def staleState_def oldToken_def)
  have w3: "SPOTIFYCALL_WITH_REFRESH laggingEnv (SpotifyAPI_getAvailableDevices laggingEnv)
              (getAccessToken staleState) staleState = (Inr ([kitchen, office], ''old''), ?s1)"
    by (simp add: SPOTIFYCALL_WITH_REFRESH_def request_def getAccessToken_def SpotifyAPI_getAvailableDevices_def
        laggingEnv_def quietEnv_def staleState_def oldToken_def)
  have w4: "SPOTIFYCALL_WITH_REFRESH noDeviceEnv (SpotifyAPI_getAvailableDevices noDeviceEnv)
              (getAccessToken staleState) staleState = (Inr ([], ''old''), ?s1)"
    by (simp add: SPOTIFYCALL_WITH_REFRESH_def request_def getAccessToken_def SpotifyAPI_getAvailableDevices_def
        noDeviceEnv_def quietEnv_def staleState_def oldToken_def)
  have c1: "getValueString officeEnv ''Spotify'' ''playingDevice'' = Inr ''office''
      \<and> find (\<lambda>x. device_name x = ''office'') [kitchen, office] = Some office"
    by (simp add: officeEnv_def quietEnv_def kitchen_def office_def)
  have c2: "getValueString atticEnv ''Spotify'' ''playingDevice'' = Inr ''attic''
      \<and> (\<forall>x\<in>set [kitchen, office]. device_name x \<noteq> ''attic'')"
    by (simp add: atticEnv_def quietEnv_def kitchen_def office_def)
  have c3: "getValueString laggingEnv ''Spotify'' ''playingDevice'' = Inl noKey"
    by (simp add: laggingEnv_def quietEnv_def)
  have g1: "SPOTIFYCALL_WITH_REFRESH officeEnv (SpotifyAPI_getCurrentPlayback officeEnv) ''old'' ?s1
      = (Inr (None, ''old''), ?s2)"
    by (simp add: SPOTIFYCALL_WITH_REFRESH_def request_def SpotifyAPI_getCurrentPlayback_def
        officeEnv_def quietEnv_def staleState_def)
  have g2: "SPOTIFYCALL_WITH_REFRESH atticEnv (SpotifyAPI_getCurrentPlayback atticEnv) ''old'' ?s1
      = (Inr (None, ''old''), ?s2)"
    by (simp add: SPOTIFYCALL_WITH_REFRESH_def request_def SpotifyAPI_getCurrentPlayback_def
        atticEnv_def quietEnv_def staleState_def)
  have g3: "SPOTIFYCALL_WITH_REFRESH laggingEnv (SpotifyAPI_getCurrentPlayback laggingEnv) ''old'' ?s1
      = (Inr (Some ?pb, ''old''), ?s2)"
    by (simp add: SPOTIFYCALL_WITH_REFRESH_def request_def SpotifyAPI_getCurrentPlayback_def
        laggingEnv_def quietEnv_def staleState_def)
  have a1: "api_transferUsersPlayback officeEnv xs = None" "api_play officeEnv xs = None"
    "api_transferUsersPlayback atticEnv xs = None" "api_play atticEnv xs = None"
    "api_play laggingEnv xs = None" for xs
    by (simp_all add: officeEnv_def atticEnv_def laggingEnv_def quietEnv_def)
  note T1 = setPlayback_device [OF w1, of songTrack, THEN conjunct2, rule_format, OF ne,
        THEN conjunct1, rule_format, OF c1]
  note T2 = setPlayback_device [OF w2, of songTrack, THEN conjunct2, rule_format, OF ne,
        THEN conjunct2, THEN conjunct1, rule_format, OF c2]
  note T3 = setPlayback_device [OF w3, of songTrack, THEN conjunct2, rule_format, OF ne,
        THEN conjunct2, THEN conjunct2, rule_format, OF c3]
  have r1: "setPlayback officeEnv songTrack staleState =
     (None, ?s2\<lparr>requests := requests ?s2 @
        [TransferUsersPlayback ''old'' [office] True, GetCurrentPlayback ''old'',
         Play ''old'' [trackId songTrack] (Some office)]\<rparr>)"
    using T1 [THEN conjunct2, unfolded playsTrackOn_def, THEN conjunct2, THEN conjunct2, rule_format, OF g1,
        THEN conjunct2, THEN conjunct2, rule_format, OF a1(1), THEN conjunct2, rule_format, OF a1(2)] .
  have r2: "setPlayback atticEnv songTrack staleState =
     (None, ?s2\<lparr>requests := requests ?s2 @
        [TransferUsersPlayback ''old'' [hd [kitchen, office]] True, GetCurrentPlayback ''old'',
         Play ''old'' [trackId songTrack] (Some (hd [kitchen, office]))]\<rparr>)"
    using T2 [THEN conjunct2, unfolded playsTrackOn_def, THEN conjunct2, THEN conjunct2, rule_format, OF g2,
        THEN conjunct2, THEN conjunct2, rule_format, OF a1(3), THEN conjunct2, rule_format, OF a1(4)] .
  have r3: "setPlayback laggingEnv songTrack staleState =
     (None, ?s2\<lparr>requests := requests ?s2 @
        [GetCurrentPlayback ''old'', Play ''old'' [trackId songTrack] (Some (hd [kitchen, office]))]\<rparr>)"
    using T3 [THEN conjunct2, unfolded playsTrackOn_def, THEN conjunct2, THEN conjunct1, rule_format, OF g3,
        THEN conjunct2, rule_format, OF a1(5)] .
  have r4: "setPlayback noDeviceEnv songTrack staleState =
       (Some \<lparr>mCode = SpotifyNoDevice, mMsg = ''No devices for playing the track available''\<rparr>, ?s1)"
    using setPlayback_device [OF w4, of songTrack, THEN conjunct1, rule_format, OF refl] by simp
  have s1: "targetsDevice office songTrack staleState (setPlayback officeEnv songTrack staleState)"
    using T1 by simp
  have s2: "targetsDevice kitchen songTrack staleState (setPlayback atticEnv songTrack staleState)"
    using T2 by simp
  have s3: "targetsDevice kitchen songTrack staleState (setPlayback laggingEnv songTrack staleState)"
    using T3 by simp
  show ?thesis
    using r1 r2 r3 r4 s1 s2 s3 by (simp add: t staleState_def)
qed

end
